theory Spec2Isabelle
  imports Complex_Main
begin

section \<open>Title-bar opacity dialog (kdecoration/config/titlebaropacity.cpp)\<close>

text \<open>
  The part of \<^verbatim>\<open>InternalSettings\<close> that \<^verbatim>\<open>TitleBarOpacity::save\<close> writes.
  Opacity values are the integer percentages of the spin boxes.
\<close>

record OpacitySettings =
  overrideActiveTitleBarOpacity :: bool
  overrideInactiveTitleBarOpacity :: bool
  activeTitlebarOpacity :: int
  inactiveTitlebarOpacity :: int
  opaqueMaximizedTitlebars :: bool
  blurTransparentTitlebars :: bool
  applyOpacityToHeader :: bool

text \<open>The widgets of \<^verbatim>\<open>m_ui\<close> that \<^verbatim>\<open>save\<close> reads.\<close>

record Ui_TitleBarOpacity =
  ui_overrideActiveTitleBarOpacity :: bool
  ui_overrideInactiveTitleBarOpacity :: bool
  ui_activeTitlebarOpacity :: int
  ui_inactiveTitlebarOpacity :: int
  ui_opaqueMaximizedTitlebars :: bool
  ui_blurTransparentTitlebars :: bool
  ui_applyOpacityToHeader :: bool

record TitleBarOpacity =
  m_ui :: Ui_TitleBarOpacity
  m_translucentActiveSchemeColor :: bool
  m_translucentInactiveSchemeColor :: bool

text \<open>One constructor per setter of \<^verbatim>\<open>InternalSettings\<close> called by \<^verbatim>\<open>save\<close>.\<close>

datatype SettingWrite =
    SetOverrideActiveTitleBarOpacity bool
  | SetOverrideInactiveTitleBarOpacity bool
  | SetActiveTitlebarOpacity int
  | SetInactiveTitlebarOpacity int
  | SetOpaqueMaximizedTitlebars bool
  | SetBlurTransparentTitlebars bool
  | SetApplyOpacityToHeader bool

fun applyWrite :: "SettingWrite \<Rightarrow> OpacitySettings \<Rightarrow> OpacitySettings" where
  "applyWrite (SetOverrideActiveTitleBarOpacity v) s = s\<lparr>overrideActiveTitleBarOpacity := v\<rparr>"
| "applyWrite (SetOverrideInactiveTitleBarOpacity v) s = s\<lparr>overrideInactiveTitleBarOpacity := v\<rparr>"
| "applyWrite (SetActiveTitlebarOpacity v) s = s\<lparr>activeTitlebarOpacity := v\<rparr>"
| "applyWrite (SetInactiveTitlebarOpacity v) s = s\<lparr>inactiveTitlebarOpacity := v\<rparr>"
| "applyWrite (SetOpaqueMaximizedTitlebars v) s = s\<lparr>opaqueMaximizedTitlebars := v\<rparr>"
| "applyWrite (SetBlurTransparentTitlebars v) s = s\<lparr>blurTransparentTitlebars := v\<rparr>"
| "applyWrite (SetApplyOpacityToHeader v) s = s\<lparr>applyOpacityToHeader := v\<rparr>"

text \<open>
  \<^verbatim>\<open>TitleBarOpacity::save\<close>, lines 109 to 123: the setter calls in source order.
  Each \<^verbatim>\<open>if\<close> without \<^verbatim>\<open>else\<close> contributes its call or nothing.
\<close>

definition saveWrites :: "TitleBarOpacity \<Rightarrow> SettingWrite list" where
  "saveWrites t =
     (if m_translucentActiveSchemeColor t
      then [SetOverrideActiveTitleBarOpacity (ui_overrideActiveTitleBarOpacity (m_ui t))] else [])
   @ (if m_translucentInactiveSchemeColor t
      then [SetOverrideInactiveTitleBarOpacity (ui_overrideInactiveTitleBarOpacity (m_ui t))] else [])
   @ (if \<not> m_translucentActiveSchemeColor t
         \<or> (m_translucentActiveSchemeColor t \<and> ui_overrideActiveTitleBarOpacity (m_ui t))
      then [SetActiveTitlebarOpacity (ui_activeTitlebarOpacity (m_ui t))] else [])
   @ (if \<not> m_translucentInactiveSchemeColor t
         \<or> (m_translucentActiveSchemeColor t \<and> ui_overrideActiveTitleBarOpacity (m_ui t))
      then [SetInactiveTitlebarOpacity (ui_inactiveTitlebarOpacity (m_ui t))] else [])
   @ [SetOpaqueMaximizedTitlebars (ui_opaqueMaximizedTitlebars (m_ui t)),
      SetBlurTransparentTitlebars (ui_blurTransparentTitlebars (m_ui t)),
      SetApplyOpacityToHeader (ui_applyOpacityToHeader (m_ui t))]"

text \<open>
  \<^verbatim>\<open>save\<close>: the settings object is created afresh and loaded from the rc files
  (\<open>loaded\<close>), the setters run, and the result is what \<^verbatim>\<open>m_internalSettings->save()\<close>
  persists.
\<close>

definition save :: "TitleBarOpacity \<Rightarrow> OpacitySettings \<Rightarrow> OpacitySettings" where
  "save t loaded = fold applyWrite (saveWrites t) loaded"

fun isSetActiveTitlebarOpacity :: "SettingWrite \<Rightarrow> bool" where
  "isSetActiveTitlebarOpacity (SetActiveTitlebarOpacity v) = True"
| "isSetActiveTitlebarOpacity w = False"

fun isSetInactiveTitlebarOpacity :: "SettingWrite \<Rightarrow> bool" where
  "isSetInactiveTitlebarOpacity (SetInactiveTitlebarOpacity v) = True"
| "isSetInactiveTitlebarOpacity w = False"

section \<open>Decoration buttons (kdecoration/breezebutton.cpp): data\<close>

text \<open>
  A \<^verbatim>\<open>QColor\<close> is either the invalid, default-constructed colour or a colour with
  red, green, blue and alpha channels.
\<close>

datatype QColor = InvalidColor | Rgba real real real real

fun isValid :: "QColor \<Rightarrow> bool" where
  "isValid InvalidColor = False"
| "isValid (Rgba r g b a) = True"

definition Qt_white :: QColor where
  "Qt_white = Rgba 1 1 1 1"

datatype DecorationButtonType =
  Menu | ApplicationMenu | OnAllDesktops | Minimize | Maximize | Close
  | ContextHelp | Shade | KeepBelow | KeepAbove | Custom

datatype EnumBackgroundColors =
  ColorsTitlebarText | ColorsAccent | ColorsAccentWithTrafficLights

datatype EnumButtonShape =
  ShapeSmallCircle | ShapeSmallSquare | ShapeSmallRoundedSquare
  | ShapeFullHeightRectangle | ShapeFullHeightRoundedRectangle
  | ShapeIntegratedRoundedRectangle

text \<open>The source only ever tests the icon style against \<^verbatim>\<open>StyleSystemIconTheme\<close>.\<close>

datatype EnumButtonIconStyle = StyleSystemIconTheme | StyleDrawnByTheme

datatype EnumBoldButtonIcons = BoldIconsHiDpiOnly | BoldIconsBold | BoldIconsFine

datatype ButtonBackgroundType = Small | FullHeight

text \<open>The colours of \<^verbatim>\<open>g_decorationColors\<close> that the button reads.\<close>

record DecorationColors =
  negative :: QColor
  negativeSaturated :: QColor
  negativeLessSaturated :: QColor
  fullySaturatedNegative :: QColor
  negativeReducedOpacityBackground :: QColor
  negativeReducedOpacityOutline :: QColor
  negativeReducedOpacityLessSaturatedBackground :: QColor
  neutral :: QColor
  neutralSaturated :: QColor
  neutralLessSaturated :: QColor
  neutralReducedOpacityBackground :: QColor
  neutralReducedOpacityOutline :: QColor
  positive :: QColor
  positiveSaturated :: QColor
  positiveLessSaturated :: QColor
  positiveReducedOpacityBackground :: QColor
  positiveReducedOpacityOutline :: QColor
  buttonHover :: QColor
  buttonFocus :: QColor
  buttonReducedOpacityBackground :: QColor
  buttonReducedOpacityOutline :: QColor

record InternalSettings =
  backgroundColors :: EnumBackgroundColors
  translucentButtonBackgrounds :: bool
  redAlwaysShownClose :: bool
  buttonShape :: EnumButtonShape
  cornerRadius :: real
  buttonIconStyle :: EnumButtonIconStyle
  boldButtonIcons :: EnumBoldButtonIcons

record ButtonBehaviouralParameters =
  drawBackgroundAlways :: bool
  drawBackgroundOnHover :: bool
  drawBackgroundOnFocus :: bool
  drawCloseBackgroundAlways :: bool
  drawCloseBackgroundOnHover :: bool
  drawCloseBackgroundOnFocus :: bool
  drawOutlineAlways :: bool
  drawOutlineOnHover :: bool
  drawOutlineOnFocus :: bool
  drawCloseOutlineAlways :: bool
  drawCloseOutlineOnHover :: bool
  drawCloseOutlineOnFocus :: bool
  drawIconAlways :: bool
  drawIconOnHover :: bool
  drawIconOnFocus :: bool

text \<open>
  The decorated client as \<^verbatim>\<open>Button::create\<close> reads it. The source asserts
  (\<^verbatim>\<open>Q_ASSERT(c)\<close>) that the strong reference to the client exists, so the model holds
  the client itself.
\<close>

record DecoratedClient =
  isCloseable :: bool
  isMaximizeable :: bool
  isMinimizeable :: bool
  providesContextHelp :: bool
  isShadeable :: bool

record Decoration =
  internalSettings :: InternalSettings
  m_buttonBehaviouralParameters :: ButtonBehaviouralParameters
  titleBarColor :: QColor
  fontColor :: QColor
  animationsDuration :: int
  buttonBackgroundType :: ButtonBackgroundType
  systemScaleFactor :: real
  client :: DecoratedClient

text \<open>The decoration handed to \<^verbatim>\<open>Button::create\<close>: \<^verbatim>\<open>qobject_cast<Decoration *>\<close>
  succeeds on a Breeze decoration only.\<close>

datatype KDecoration = NullDecoration | ForeignDecoration | BreezeDecoration Decoration

fun qobject_cast_Decoration :: "KDecoration \<Rightarrow> Decoration option" where
  "qobject_cast_Decoration (BreezeDecoration d) = Some d"
| "qobject_cast_Decoration k = None"

datatype AnimationState = Stopped | Paused | Running

datatype Direction = Forward | Backward

datatype QEasingCurve = Linear | InOutQuad

record QVariantAnimation =
  startValue :: real
  endValue :: real
  easingCurve :: QEasingCurve
  duration :: int
  direction :: Direction
  animState :: AnimationState
  currentTime :: int

text \<open>
  The members of \<^verbatim>\<open>Breeze::Button\<close> and the state of the base class
  \<^verbatim>\<open>KDecoration2::DecorationButton\<close> that the functions below read or write.
  \<open>decoration\<close> is the result of \<^verbatim>\<open>qobject_cast<Decoration *>(decoration())\<close>: a button is
  only ever constructed on a Breeze decoration, so the pointer is that decoration or null.
  Geometry (sizes, offsets, painter transforms) is left out.
\<close>

record Button =
  btype :: DecorationButtonType
  decoration :: "Decoration option"
  isHovered :: bool
  isPressed :: bool
  isChecked :: bool
  isVisible :: bool
  isStandAlone :: bool
  m_animation :: QVariantAnimation
  m_opacity :: real
  m_isGtkCsdButton :: bool
  m_devicePixelRatio :: real
  m_standardScaledPenWidth :: real
  m_systemIconIsAvailable :: bool
  m_boldButtonIcons :: bool
  m_backgroundColor :: QColor
  m_foregroundColor :: QColor
  m_outlineColor :: QColor
  m_preAnimationBackgroundColor :: QColor
  m_preAnimationForegroundColor :: QColor
  m_preAnimationOutlineColor :: QColor
  m_lowContrastBetweenTitleBarAndBackground :: bool

text \<open>
  What the button takes from outside the repository's two source files: the colour
  functions of KColorUtils and of \<^verbatim>\<open>ColorTools\<close> (colortools.h is not among the sources),
  the global colour cache, the constant \<^verbatim>\<open>PenWidth::Symbol\<close>, and the platform.
  \<open>getHigherContrastForegroundColor fg bg threshold\<close> is the colour the function of that
  name stores in its output parameter.
\<close>

record Env =
  mix :: "QColor \<Rightarrow> QColor \<Rightarrow> real \<Rightarrow> QColor"
  alphaMix :: "QColor \<Rightarrow> real \<Rightarrow> QColor"
  contrastRatio :: "QColor \<Rightarrow> QColor \<Rightarrow> real"
  getHigherContrastForegroundColor :: "QColor \<Rightarrow> QColor \<Rightarrow> real \<Rightarrow> QColor"
  g_decorationColors :: DecorationColors
  PenWidth_Symbol :: real
  isPlatformX11 :: bool
  painterDevicePixelRatioF :: real
  applicationName :: string

definition colorIf :: "bool \<Rightarrow> QColor \<Rightarrow> QColor" where
  \<comment> \<open>\<^verbatim>\<open>QColor x; if (c) x = v;\<close>\<close>
  "colorIf c v = (if c then v else InvalidColor)"

definition isAccent :: "InternalSettings \<Rightarrow> bool" where
  "isAccent s \<longleftrightarrow> backgroundColors s = ColorsAccent
                \<or> backgroundColors s = ColorsAccentWithTrafficLights"

section \<open>Foreground colour (Button::foregroundColor, lines 360 to 482)\<close>

datatype ForegroundColorState =
  ForegroundColorState_none | ForegroundColorState_normal
  | ForegroundColorState_animatedHover | ForegroundColorState_hover
  | ForegroundColorState_focus

text \<open>Lines 373 to 381: the font colour, boosted against the background when one is given.\<close>

definition fontColorContrastBoosted :: "Env \<Rightarrow> Decoration \<Rightarrow> QColor \<Rightarrow> QColor" where
  "fontColorContrastBoosted env d backgroundContrastedColor =
     (if isValid backgroundContrastedColor
      then getHigherContrastForegroundColor env (fontColor d) backgroundContrastedColor 2.3
      else fontColor d)"

text \<open>Lines 383 to 403: the \<^verbatim>\<open>if\<close>/\<^verbatim>\<open>else if\<close> chain that determines the colour state.\<close>

definition foregroundColorState :: "Decoration \<Rightarrow> Button \<Rightarrow> ForegroundColorState" where
  "foregroundColorState d b =
     (let s = internalSettings d; p = m_buttonBehaviouralParameters d in
      if isPressed b \<and> drawIconOnFocus p then ForegroundColorState_focus
      else if (btype b = KeepBelow \<or> btype b = KeepAbove \<or> btype b = Shade) \<and> isChecked b
        then ForegroundColorState_focus
      else if btype b = OnAllDesktops \<and> isChecked b then
        (if backgroundColors s = ColorsTitlebarText \<and> \<not> translucentButtonBackgrounds s
            \<and> \<not> isHovered b
         then ForegroundColorState_normal else ForegroundColorState_focus)
      else if isPressed b \<and> drawIconOnFocus p then ForegroundColorState_focus
      else if animState (m_animation b) = Running \<and> drawIconOnHover p
        then ForegroundColorState_animatedHover
      else if isHovered b \<and> drawIconOnHover p then ForegroundColorState_hover
      else if drawIconAlways p then ForegroundColorState_normal
      else ForegroundColorState_none)"

text \<open>
  Lines 405 to 465: the palette \<open>(normalForeground, hoverForeground, focusForeground)\<close>.
\<close>

definition foregroundPalette ::
  "Env \<Rightarrow> Decoration \<Rightarrow> DecorationButtonType \<Rightarrow> QColor \<Rightarrow> QColor \<times> QColor \<times> QColor" where
  "foregroundPalette env d t backgroundContrastedColor =
     (let s = internalSettings d; p = m_buttonBehaviouralParameters d;
          boosted = fontColorContrastBoosted env d backgroundContrastedColor;
          closeHover = (if drawCloseBackgroundOnHover p then Qt_white else boosted);
          closeFocus = (if drawCloseBackgroundOnFocus p then Qt_white else boosted) in
      if t = Close then
        if redAlwaysShownClose s then
          if drawBackgroundAlways p then
            if drawCloseBackgroundAlways p \<and> backgroundColors s = ColorsTitlebarText
               \<and> \<not> translucentButtonBackgrounds s
            then (titleBarColor d, Qt_white, Qt_white)
            else (boosted, closeHover, closeFocus)
          else if drawCloseBackgroundAlways p then (Qt_white, Qt_white, Qt_white)
          else (boosted, closeHover, closeFocus)
        else if backgroundColors s \<noteq> ColorsTitlebarText then (boosted, closeHover, closeFocus)
        else if translucentButtonBackgrounds s then (boosted, closeHover, closeFocus)
        else if drawCloseBackgroundAlways p then (titleBarColor d, Qt_white, Qt_white)
        else (fontColor d, closeHover, closeFocus)
      else
        if backgroundColors s = ColorsTitlebarText \<and> \<not> translucentButtonBackgrounds s then
          if drawBackgroundAlways p then (titleBarColor d, titleBarColor d, titleBarColor d)
          else (fontColor d,
                if drawCloseBackgroundOnHover p then titleBarColor d else fontColor d,
                if drawCloseBackgroundOnFocus p then titleBarColor d else fontColor d)
        else (boosted, boosted, boosted))"

text \<open>Lines 467 to 481: the colour of the palette for the state.\<close>

definition foregroundColor :: "Env \<Rightarrow> Button \<Rightarrow> QColor \<Rightarrow> QColor" where
  "foregroundColor env b backgroundContrastedColor =
     (case decoration b of
        None \<Rightarrow> InvalidColor
      | Some d \<Rightarrow>
          (case foregroundPalette env d (btype b) backgroundContrastedColor of
             (normalForeground, hoverForeground, focusForeground) \<Rightarrow>
               (case foregroundColorState d b of
                  ForegroundColorState_normal \<Rightarrow> normalForeground
                | ForegroundColorState_animatedHover \<Rightarrow>
                    (if isValid (m_preAnimationForegroundColor b)
                     then mix env (m_preAnimationForegroundColor b) hoverForeground (m_opacity b)
                     else alphaMix env hoverForeground (m_opacity b))
                | ForegroundColorState_hover \<Rightarrow> hoverForeground
                | ForegroundColorState_focus \<Rightarrow> focusForeground
                | ForegroundColorState_none \<Rightarrow> InvalidColor)))"

section \<open>Background colour (Button::backgroundColor, lines 491 to 775)\<close>

definition analyseContrastWithForeground :: "Decoration \<Rightarrow> bool" where
  \<comment> \<open>lines 505 to 508\<close>
  "analyseContrastWithForeground d \<longleftrightarrow>
     \<not> translucentButtonBackgrounds (internalSettings d)
     \<and> (backgroundColors (internalSettings d) = ColorsAccent
        \<or> backgroundColors (internalSettings d) = ColorsAccentWithTrafficLights)"

text \<open>
  Lines 510 to 730: \<open>(buttonNormalColor, buttonHoverColor, buttonFocusColor)\<close>. A colour
  that no branch assigns stays the invalid colour it was declared as.
\<close>

definition backgroundPalette ::
  "Env \<Rightarrow> Decoration \<Rightarrow> DecorationButtonType \<Rightarrow> QColor \<times> QColor \<times> QColor" where
  "backgroundPalette env d t =
     (let s = internalSettings d; p = m_buttonBehaviouralParameters d;
          c = g_decorationColors env;
          trafficLights = (backgroundColors s = ColorsAccentWithTrafficLights);
          onHover = drawBackgroundOnHover p; onFocus = drawBackgroundOnFocus p;
          closeOnHover = drawCloseBackgroundOnHover p;
          closeOnFocus = drawCloseBackgroundOnFocus p in
      if backgroundColors s = ColorsAccent \<or> backgroundColors s = ColorsAccentWithTrafficLights
      then
        if translucentButtonBackgrounds s then
          if t = Close then
            if drawCloseBackgroundAlways p then
              if redAlwaysShownClose s then
                (negativeReducedOpacityBackground c,
                 colorIf closeOnHover (negativeReducedOpacityOutline c),
                 colorIf closeOnFocus (fullySaturatedNegative c))
              else
                (buttonReducedOpacityBackground c,
                 colorIf closeOnHover (negativeReducedOpacityOutline c),
                 colorIf closeOnFocus (fullySaturatedNegative c))
            else
              (InvalidColor,
               colorIf closeOnHover (negativeReducedOpacityBackground c),
               colorIf closeOnFocus (negativeReducedOpacityOutline c))
          else if t = Minimize \<and> trafficLights then
            if drawBackgroundAlways p then
              (neutralReducedOpacityBackground c,
               colorIf onHover (neutralReducedOpacityOutline c),
               colorIf onFocus (neutral c))
            else
              (InvalidColor,
               colorIf onHover (neutralReducedOpacityBackground c),
               colorIf onFocus (neutralReducedOpacityOutline c))
          else if t = Maximize \<and> trafficLights then
            if drawBackgroundAlways p then
              (positiveReducedOpacityBackground c,
               colorIf onHover (positiveReducedOpacityOutline c),
               colorIf onFocus (positive c))
            else
              (InvalidColor,
               colorIf onHover (positiveReducedOpacityBackground c),
               colorIf onFocus (positiveReducedOpacityOutline c))
          else
            if drawBackgroundAlways p then
              (buttonReducedOpacityBackground c,
               colorIf onHover (buttonReducedOpacityOutline c),
               colorIf onFocus (buttonFocus c))
            else
              (InvalidColor,
               colorIf onHover (buttonReducedOpacityBackground c),
               colorIf onFocus (buttonReducedOpacityOutline c))
        else
          if t = Close then
            if drawCloseBackgroundAlways p then
              if redAlwaysShownClose s then
                (negative c,
                 colorIf closeOnHover (negativeSaturated c),
                 colorIf closeOnFocus (negativeLessSaturated c))
              else
                (mix env (titleBarColor d) (buttonHover c) 0.5,
                 colorIf closeOnHover (negativeSaturated c),
                 colorIf closeOnFocus (negativeLessSaturated c))
            else
              (InvalidColor,
               colorIf closeOnHover (negative c),
               colorIf closeOnFocus (negativeSaturated c))
          else if t = Minimize \<and> trafficLights then
            if drawBackgroundAlways p then
              (neutralLessSaturated c,
               colorIf onHover (neutral c),
               colorIf onFocus (neutralSaturated c))
            else
              (InvalidColor,
               colorIf onHover (neutralLessSaturated c),
               colorIf onFocus (neutral c))
          else if t = Maximize \<and> trafficLights then
            if drawBackgroundAlways p then
              (positiveLessSaturated c,
               colorIf onHover (positive c),
               colorIf onFocus (positiveSaturated c))
            else
              (InvalidColor,
               colorIf onHover (positiveLessSaturated c),
               colorIf onFocus (positive c))
          else
            if drawBackgroundAlways p then
              (mix env (titleBarColor d) (buttonHover c) 0.5,
               colorIf onHover (buttonHover c),
               colorIf onFocus (buttonFocus c))
            else
              (InvalidColor,
               colorIf onHover (buttonHover c),
               colorIf onFocus (buttonFocus c))
      else
        if translucentButtonBackgrounds s then
          if t = Close then
            if drawCloseBackgroundAlways p then
              if redAlwaysShownClose s then
                (negativeReducedOpacityBackground c,
                 colorIf closeOnHover (negativeReducedOpacityOutline c),
                 negativeReducedOpacityLessSaturatedBackground c)
              else
                (alphaMix env (fontColor d) 0.15,
                 colorIf closeOnHover (negativeReducedOpacityOutline c),
                 colorIf closeOnFocus (negativeReducedOpacityBackground c))
            else
              (InvalidColor,
               colorIf closeOnHover (negativeReducedOpacityBackground c),
               colorIf closeOnFocus (negativeReducedOpacityOutline c))
          else
            if drawBackgroundAlways p then
              (alphaMix env (fontColor d) 0.15,
               colorIf onHover (alphaMix env (fontColor d) 0.25),
               colorIf onFocus (alphaMix env (fontColor d) 0.35))
            else
              (InvalidColor,
               colorIf onHover (alphaMix env (fontColor d) 0.15),
               colorIf onFocus (alphaMix env (fontColor d) 0.25))
        else
          if t = Close then
            if drawBackgroundAlways p then
              if redAlwaysShownClose s then
                (negative c,
                 colorIf closeOnHover (negativeSaturated c),
                 colorIf closeOnFocus (negativeLessSaturated c))
              else
                (mix env (titleBarColor d) (fontColor d) 0.3,
                 colorIf closeOnHover (negativeSaturated c),
                 colorIf closeOnFocus (negativeLessSaturated c))
            else if drawCloseBackgroundAlways p then
              if redAlwaysShownClose s then
                (negative c,
                 colorIf closeOnHover (negativeSaturated c),
                 colorIf closeOnFocus (negativeLessSaturated c))
              else
                (fontColor d,
                 colorIf closeOnHover (negativeSaturated c),
                 colorIf closeOnFocus (negativeLessSaturated c))
            else
              (InvalidColor,
               colorIf closeOnHover (negative c),
               colorIf closeOnFocus (negativeSaturated c))
          else
            if drawBackgroundAlways p then
              (mix env (titleBarColor d) (fontColor d) 0.3,
               colorIf onHover (mix env (titleBarColor d) (fontColor d) 0.6),
               colorIf onFocus (fontColor d))
            else
              (InvalidColor,
               colorIf onHover (fontColor d),
               colorIf onFocus (mix env (titleBarColor d) (fontColor d) 0.3)))"

text \<open>
  Lines 732 to 775: the colour for the state, paired with the value left in the output
  parameter \<^verbatim>\<open>foregroundContrastedColor\<close>. Line 501 resets that parameter, and each branch
  assigns it only under \<^verbatim>\<open>analyseContrastWithForeground\<close>.
\<close>

definition backgroundSelect ::
  "Env \<Rightarrow> Decoration \<Rightarrow> Button \<Rightarrow> bool \<Rightarrow> QColor \<times> QColor \<times> QColor \<Rightarrow> QColor \<times> QColor" where
  "backgroundSelect env d b getNonAnimatedColor pal =
     (case pal of (buttonNormalColor, buttonHoverColor, buttonFocusColor) \<Rightarrow>
      (let s = internalSettings d; a = analyseContrastWithForeground d in
       if (btype b = KeepBelow \<or> btype b = KeepAbove \<or> btype b = Shade) \<and> isChecked b then
         if backgroundColors s = ColorsAccent \<or> backgroundColors s = ColorsAccentWithTrafficLights
         then (buttonFocusColor, colorIf a buttonFocusColor)
         else (buttonHoverColor, colorIf a buttonHoverColor)
       else if btype b = OnAllDesktops \<and> isChecked b
               \<and> (backgroundColors s = ColorsAccent
                  \<or> backgroundColors s = ColorsAccentWithTrafficLights)
         then (buttonFocusColor, colorIf a buttonFocusColor)
       else if isPressed b then (buttonFocusColor, colorIf a buttonFocusColor)
       else if animState (m_animation b) = Running \<and> \<not> getNonAnimatedColor then
         if isValid (m_preAnimationBackgroundColor b) \<and> isValid buttonHoverColor
         then (mix env (m_preAnimationBackgroundColor b) buttonHoverColor (m_opacity b),
               colorIf a buttonHoverColor)
         else if isValid buttonHoverColor
         then (alphaMix env buttonHoverColor (m_opacity b), colorIf a buttonHoverColor)
         else (InvalidColor, InvalidColor)
       else if isHovered b then (buttonHoverColor, colorIf a buttonHoverColor)
       else (buttonNormalColor, colorIf a buttonNormalColor)))"

text \<open>
  \<^verbatim>\<open>backgroundColor(QColor &foregroundContrastedColor, bool getNonAnimatedColor)\<close>: the
  returned colour and the final value of the reference parameter, whose value on entry is
  the third argument (it is left untouched when there is no decoration).
\<close>

definition backgroundColor :: "Env \<Rightarrow> Button \<Rightarrow> QColor \<Rightarrow> bool \<Rightarrow> QColor \<times> QColor" where
  "backgroundColor env b foregroundContrastedColor getNonAnimatedColor =
     (case decoration b of
        None \<Rightarrow> (InvalidColor, foregroundContrastedColor)
      | Some d \<Rightarrow>
          backgroundSelect env d b getNonAnimatedColor (backgroundPalette env d (btype b)))"

section \<open>Outline colour (Button::outlineColor, lines 778 to 1056)\<close>

text \<open>
  Lines 786 to 803: the six flags the function works with. Under low contrast between
  title bar and background each is the configured outline flag or the background flag.
\<close>

record OutlineFlags =
  effDrawOutlineAlways :: bool
  effDrawOutlineOnHover :: bool
  effDrawOutlineOnFocus :: bool
  effDrawCloseOutlineAlways :: bool
  effDrawCloseOutlineOnHover :: bool
  effDrawCloseOutlineOnFocus :: bool

definition outlineFlags :: "Decoration \<Rightarrow> bool \<Rightarrow> OutlineFlags" where
  "outlineFlags d lowContrast =
     (let p = m_buttonBehaviouralParameters d in
      \<lparr>effDrawOutlineAlways =
         (if lowContrast then drawOutlineAlways p \<or> drawBackgroundAlways p
          else drawOutlineAlways p),
       effDrawOutlineOnHover =
         (if lowContrast then drawOutlineOnHover p \<or> drawBackgroundOnHover p
          else drawOutlineOnHover p),
       effDrawOutlineOnFocus =
         (if lowContrast then drawOutlineOnFocus p \<or> drawBackgroundOnFocus p
          else drawOutlineOnFocus p),
       effDrawCloseOutlineAlways =
         (if lowContrast then drawCloseOutlineAlways p \<or> drawCloseBackgroundAlways p
          else drawCloseOutlineAlways p),
       effDrawCloseOutlineOnHover =
         (if lowContrast then drawCloseOutlineOnHover p \<or> drawCloseBackgroundOnHover p
          else drawCloseOutlineOnHover p),
       effDrawCloseOutlineOnFocus =
         (if lowContrast then drawCloseOutlineOnFocus p \<or> drawCloseBackgroundOnFocus p
          else drawCloseOutlineOnFocus p)\<rparr>)"

text \<open>
  Lines 809 to 1018: \<open>(buttonOutlineNormalColor, buttonOutlineHoverColor,
  buttonOutlineFocusColor)\<close> before the contrast correction. In every branch the source
  assigns one colour to hover and focus under their flags; the branches differ in that
  colour and in the normal colour.
\<close>

definition outlinePalette ::
  "Env \<Rightarrow> Decoration \<Rightarrow> DecorationButtonType \<Rightarrow> OutlineFlags \<Rightarrow> QColor \<times> QColor \<times> QColor" where
  "outlinePalette env d t fl =
     (let s = internalSettings d; c = g_decorationColors env;
          trafficLights = (backgroundColors s = ColorsAccentWithTrafficLights);
          onHover = effDrawOutlineOnHover fl; onFocus = effDrawOutlineOnFocus fl;
          closeOnHover = effDrawCloseOutlineOnHover fl;
          closeOnFocus = effDrawCloseOutlineOnFocus fl in
      if backgroundColors s = ColorsAccent \<or> backgroundColors s = ColorsAccentWithTrafficLights
      then
        if translucentButtonBackgrounds s then
          if t = Close then
            if effDrawCloseOutlineAlways fl then
              if redAlwaysShownClose s then
                (negativeReducedOpacityOutline c,
                 colorIf closeOnHover (negativeReducedOpacityOutline c),
                 colorIf closeOnFocus (negativeReducedOpacityOutline c))
              else
                (buttonReducedOpacityOutline c,
                 colorIf closeOnHover (negativeReducedOpacityOutline c),
                 colorIf closeOnFocus (negativeReducedOpacityOutline c))
            else
              (InvalidColor,
               colorIf closeOnHover (negativeReducedOpacityOutline c),
               colorIf closeOnFocus (negativeReducedOpacityOutline c))
          else if t = Minimize \<and> trafficLights then
            if effDrawOutlineAlways fl then
              (neutralReducedOpacityOutline c,
               colorIf onHover (neutralReducedOpacityOutline c),
               colorIf onFocus (neutralReducedOpacityOutline c))
            else
              (InvalidColor,
               colorIf onHover (neutralReducedOpacityOutline c),
               colorIf onFocus (neutralReducedOpacityOutline c))
          else if t = Maximize \<and> trafficLights then
            if effDrawOutlineAlways fl then
              (positiveReducedOpacityOutline c,
               colorIf onHover (positiveReducedOpacityOutline c),
               colorIf onFocus (positiveReducedOpacityOutline c))
            else
              (InvalidColor,
               colorIf onHover (positiveReducedOpacityOutline c),
               colorIf onFocus (positiveReducedOpacityOutline c))
          else
            if effDrawOutlineAlways fl then
              (buttonReducedOpacityOutline c,
               colorIf onHover (buttonReducedOpacityOutline c),
               colorIf onFocus (buttonReducedOpacityOutline c))
            else
              (InvalidColor,
               colorIf onHover (buttonReducedOpacityOutline c),
               colorIf onFocus (buttonReducedOpacityOutline c))
        else
          if t = Close then
            if effDrawCloseOutlineAlways fl then
              if redAlwaysShownClose s then
                (negativeSaturated c,
                 colorIf closeOnHover (negativeSaturated c),
                 colorIf closeOnFocus (negativeSaturated c))
              else
                (buttonFocus c,
                 colorIf closeOnHover (negativeSaturated c),
                 colorIf closeOnFocus (negativeSaturated c))
            else
              (InvalidColor,
               colorIf closeOnHover (negativeSaturated c),
               colorIf closeOnFocus (negativeSaturated c))
          else if t = Minimize \<and> trafficLights then
            if effDrawOutlineAlways fl then
              (neutral c, colorIf onHover (neutral c), colorIf onFocus (neutral c))
            else
              (InvalidColor, colorIf onHover (neutral c), colorIf onFocus (neutral c))
          else if t = Maximize \<and> trafficLights then
            if effDrawOutlineAlways fl then
              (positive c, colorIf onHover (positive c), colorIf onFocus (positive c))
            else
              (InvalidColor, colorIf onHover (positive c), colorIf onFocus (positive c))
          else
            if effDrawOutlineAlways fl then
              (buttonFocus c, colorIf onHover (buttonFocus c), colorIf onFocus (buttonFocus c))
            else
              (InvalidColor, colorIf onHover (buttonFocus c), colorIf onFocus (buttonFocus c))
      else
        if translucentButtonBackgrounds s then
          if t = Close then
            if effDrawCloseOutlineAlways fl then
              if redAlwaysShownClose s then
                (negativeReducedOpacityOutline c,
                 colorIf closeOnHover (negativeReducedOpacityOutline c),
                 colorIf closeOnFocus (negativeReducedOpacityOutline c))
              else
                (alphaMix env (fontColor d) 0.25,
                 colorIf closeOnHover (negativeReducedOpacityOutline c),
                 colorIf closeOnFocus (negativeReducedOpacityOutline c))
            else
              (InvalidColor,
               colorIf closeOnHover (negativeReducedOpacityOutline c),
               colorIf closeOnFocus (negativeReducedOpacityOutline c))
          else
            if effDrawOutlineAlways fl then
              (alphaMix env (fontColor d) 0.25,
               colorIf onHover (alphaMix env (fontColor d) 0.25),
               colorIf onFocus (alphaMix env (fontColor d) 0.25))
            else
              (InvalidColor,
               colorIf onHover (alphaMix env (fontColor d) 0.25),
               colorIf onFocus (alphaMix env (fontColor d) 0.25))
        else
          if t = Close then
            if effDrawCloseOutlineAlways fl then
              if redAlwaysShownClose s then
                (negativeSaturated c,
                 colorIf closeOnHover (negativeSaturated c),
                 colorIf closeOnFocus (negativeSaturated c))
              else
                (mix env (titleBarColor d) (fontColor d) 0.3,
                 colorIf closeOnHover (negativeSaturated c),
                 colorIf closeOnFocus (negativeSaturated c))
            else
              (InvalidColor,
               colorIf closeOnHover (negativeSaturated c),
               colorIf closeOnFocus (negativeSaturated c))
          else
            if effDrawOutlineAlways fl then
              (mix env (titleBarColor d) (fontColor d) 0.3,
               colorIf onHover (mix env (titleBarColor d) (fontColor d) 0.3),
               colorIf onFocus (mix env (titleBarColor d) (fontColor d) 0.3))
            else
              (InvalidColor,
               colorIf onHover (mix env (titleBarColor d) (fontColor d) 0.3),
               colorIf onFocus (mix env (titleBarColor d) (fontColor d) 0.3)))"

text \<open>Lines 1020 to 1033: low contrast correction between outline and title bar.\<close>

definition outlineContrastCorrect :: "Env \<Rightarrow> Decoration \<Rightarrow> QColor \<Rightarrow> QColor" where
  "outlineContrastCorrect env d col =
     (if backgroundColors (internalSettings d) = ColorsAccent
         \<or> backgroundColors (internalSettings d) = ColorsAccentWithTrafficLights
      then (if isValid col \<and> contrastRatio env col (titleBarColor d) < 1.3
            then mix env col (fontColor d) 0.4 else col)
      else col)"

text \<open>Lines 1035 to 1055: the colour for the state.\<close>

definition outlineSelect ::
  "Env \<Rightarrow> Decoration \<Rightarrow> Button \<Rightarrow> bool \<Rightarrow> QColor \<times> QColor \<times> QColor \<Rightarrow> QColor" where
  "outlineSelect env d b getNonAnimatedColor pal =
     (case pal of
        (buttonOutlineNormalColor, buttonOutlineHoverColor, buttonOutlineFocusColor) \<Rightarrow>
      (let s = internalSettings d in
       if isChecked b \<and> (btype b = KeepBelow \<or> btype b = KeepAbove \<or> btype b = Shade)
         then buttonOutlineFocusColor
       else if btype b = OnAllDesktops \<and> isChecked b
               \<and> (backgroundColors s = ColorsAccent
                  \<or> backgroundColors s = ColorsAccentWithTrafficLights)
         then buttonOutlineFocusColor
       else if isPressed b then buttonOutlineFocusColor
       else if animState (m_animation b) = Running \<and> \<not> getNonAnimatedColor then
         if isValid (m_preAnimationOutlineColor b) \<and> isValid buttonOutlineHoverColor
         then mix env (m_preAnimationOutlineColor b) buttonOutlineHoverColor (m_opacity b)
         else if isValid buttonOutlineHoverColor
         then alphaMix env buttonOutlineHoverColor (m_opacity b)
         else InvalidColor
       else if isHovered b then buttonOutlineHoverColor
       else buttonOutlineNormalColor))"

definition outlinePaletteCorrected ::
  "Env \<Rightarrow> Decoration \<Rightarrow> DecorationButtonType \<Rightarrow> OutlineFlags \<Rightarrow> QColor \<times> QColor \<times> QColor" where
  "outlinePaletteCorrected env d t fl =
     (case outlinePalette env d t fl of
        (n, h, f) \<Rightarrow>
          (outlineContrastCorrect env d n, outlineContrastCorrect env d h,
           outlineContrastCorrect env d f))"

definition outlineColor :: "Env \<Rightarrow> Button \<Rightarrow> bool \<Rightarrow> QColor" where
  "outlineColor env b getNonAnimatedColor =
     (case decoration b of
        None \<Rightarrow> InvalidColor
      | Some d \<Rightarrow>
          outlineSelect env d b getNonAnimatedColor
            (outlinePaletteCorrected env d (btype b)
               (outlineFlags d (m_lowContrastBetweenTitleBarAndBackground b))))"

section \<open>Animation (constructor, reconfigure, updateAnimationState)\<close>

text \<open>
  The Qt side of the animation, which is library code outside the repository, written
  after the Qt documentation: \<^verbatim>\<open>QEasingCurve::valueForProgress\<close> for the two curves,
  the current value of a \<^verbatim>\<open>QVariantAnimation\<close> with a start and an end value, and
  \<^verbatim>\<open>QAbstractAnimation::start\<close>, which does nothing on a running animation and otherwise
  sets it running from the beginning of its direction.
\<close>

definition valueForProgress :: "QEasingCurve \<Rightarrow> real \<Rightarrow> real" where
  "valueForProgress e progress =
     (let t = max 0 (min 1 progress) in
      case e of
        Linear \<Rightarrow> t
      | InOutQuad \<Rightarrow> (if 2 * t < 1 then (2 * t) * (2 * t) / 2
                      else - (1 / 2) * ((2 * t - 1) * ((2 * t - 1) - 2) - 1)))"

definition currentValue :: "QVariantAnimation \<Rightarrow> real" where
  "currentValue a =
     (let progress = (if duration a = 0 then 1
                      else real_of_int (currentTime a) / real_of_int (duration a)) in
      startValue a + (endValue a - startValue a) * valueForProgress (easingCurve a) progress)"

definition QAbstractAnimation_start :: "QVariantAnimation \<Rightarrow> QVariantAnimation" where
  "QAbstractAnimation_start a =
     (if animState a = Running then a
      else if animState a = Paused then a\<lparr>animState := Running\<rparr>
      else a\<lparr>animState := Running,
             currentTime := (if direction a = Forward then 0 else duration a)\<rparr>)"

text \<open>Lines 1059 to 1066.\<close>

definition reconfigure :: "Button \<Rightarrow> Button" where
  "reconfigure b =
     (case decoration b of
        None \<Rightarrow> b
      | Some d \<Rightarrow> b\<lparr>m_animation := (m_animation b)\<lparr>duration := animationsDuration d\<rparr>\<rparr>)"

text \<open>Lines 1069 to 1080; connected to \<^verbatim>\<open>hoveredChanged\<close> in the constructor.\<close>

definition updateAnimationState :: "Button \<Rightarrow> bool \<Rightarrow> Button" where
  "updateAnimationState b hovered =
     (case decoration b of
        None \<Rightarrow> b
      | Some d \<Rightarrow>
          if \<not> (animationsDuration d > 0) then b
          else
            (let a = (m_animation b)\<lparr>direction := (if hovered then Forward else Backward)\<rparr> in
             if animState a \<noteq> Running
             then b\<lparr>m_animation := QAbstractAnimation_start a\<rparr>
             else b\<lparr>m_animation := a\<rparr>))"

text \<open>
  The lambda connected to \<^verbatim>\<open>valueChanged\<close> (lines 44 to 46): when the animation is at time
  \<open>t\<close>, the opacity of the button becomes the animation's current value.
\<close>

definition animationAt :: "Button \<Rightarrow> int \<Rightarrow> Button" where
  "animationAt b t =
     (let a = (m_animation b)\<lparr>currentTime := t\<rparr> in
      b\<lparr>m_animation := a, m_opacity := currentValue a\<rparr>)"

text \<open>
  The constructor, lines 31 to 72, on the members it sets. \<open>b0\<close> is the object as the
  base-class constructor and the member initialisers of breezebutton.h (not among the
  sources) leave it.
\<close>

definition Button_ctor :: "Env \<Rightarrow> DecorationButtonType \<Rightarrow> Decoration \<Rightarrow> Button \<Rightarrow> Button" where
  "Button_ctor env t d b0 =
     reconfigure
       (b0\<lparr>btype := t, decoration := Some d,
           m_animation :=
             (m_animation b0)\<lparr>startValue := 0, endValue := 1, easingCurve := InOutQuad\<rparr>,
           m_isGtkCsdButton := (applicationName env = ''kded5'')\<rparr>)"

text \<open>\<^verbatim>\<open>Button::create\<close>, lines 85 to 132; \<open>None\<close> is \<^verbatim>\<open>nullptr\<close>.\<close>

definition create :: "Env \<Rightarrow> DecorationButtonType \<Rightarrow> KDecoration \<Rightarrow> Button \<Rightarrow> Button option" where
  "create env t k b0 =
     (case qobject_cast_Decoration k of
        None \<Rightarrow> None
      | Some d \<Rightarrow>
          (let c = client d; b = Button_ctor env t d b0 in
           Some (case t of
                   Close \<Rightarrow> b\<lparr>isVisible := isCloseable c\<rparr>
                 | Maximize \<Rightarrow> b\<lparr>isVisible := isMaximizeable c\<rparr>
                 | Minimize \<Rightarrow> b\<lparr>isVisible := isMinimizeable c\<rparr>
                 | ContextHelp \<Rightarrow> b\<lparr>isVisible := providesContextHelp c\<rparr>
                 | Shade \<Rightarrow> b\<lparr>isVisible := isShadeable c\<rparr>
                 | _ \<Rightarrow> b)))"

section \<open>Painting (paint, drawIcon, the background painters)\<close>

record QPen =
  penColor :: QColor
  penWidthF :: real
  penCosmetic :: bool

datatype PenSetting = NoPen | SolidPen QPen

datatype BrushSetting = NoBrush | SolidBrush QColor

datatype ShapeKind = DrawRect | DrawRoundedRect | DrawEllipse

datatype IconKind =
  CloseIcon | RestoreIcon | MaximizeIcon | MinimizeIcon | PinnedOnAllDesktopsIcon
  | PinOnAllDesktopsIcon | UnShadeIcon | ShadeIcon | KeepBehindIcon | KeepInFrontIcon
  | ApplicationMenuIcon | ContextHelpIcon

text \<open>
  What a paint function puts on the painter, in order. A small background is the shape
  drawn with the pen, the brush and the \<^verbatim>\<open>geometryEnlargeOffset\<close> of the source; a
  full-height background is recorded with the two colours it is painted from; an icon of
  the icon renderer with the pen set on the painter before the renderer is made; the
  client's window icon as such.
\<close>

datatype PaintOp =
    FullHeightButtonBackground QColor QColor
  | SmallSizedButtonBackground ShapeKind PenSetting BrushSetting real
  | RenderIcon IconKind QPen
  | ClientIconPaint

text \<open>Lines 1341 to 1354.\<close>

definition setDevicePixelRatio :: "Env \<Rightarrow> Button \<Rightarrow> Button" where
  "setDevicePixelRatio env b =
     (case decoration b of
        None \<Rightarrow> b
      | Some d \<Rightarrow>
          (let r0 = painterDevicePixelRatioF env;
               r1 = (if isPlatformX11 env then systemScaleFactor d else r0);
               r2 = (if m_isGtkCsdButton b then systemScaleFactor d else r1) in
           b\<lparr>m_devicePixelRatio := r2\<rparr>))"

text \<open>Lines 1356 to 1360.\<close>

definition setStandardScaledPenWidth :: "Env \<Rightarrow> Button \<Rightarrow> Button" where
  "setStandardScaledPenWidth env b =
     b\<lparr>m_standardScaledPenWidth := PenWidth_Symbol env * m_devicePixelRatio b\<rparr>"

text \<open>Lines 1362 to 1386.\<close>

definition setShouldDrawBoldButtonIcons :: "Button \<Rightarrow> Button" where
  "setShouldDrawBoldButtonIcons b =
     (case decoration b of
        None \<Rightarrow> b
      | Some d \<Rightarrow>
          b\<lparr>m_boldButtonIcons :=
              (\<not> m_isGtkCsdButton b
               \<and> (case boldButtonIcons (internalSettings d) of
                    BoldIconsHiDpiOnly \<Rightarrow> m_devicePixelRatio b > 1.2
                  | BoldIconsBold \<Rightarrow> True
                  | BoldIconsFine \<Rightarrow> False))\<rparr>)"

text \<open>Lines 1389 to 1396.\<close>

definition isSystemIconAvailable :: "Button \<Rightarrow> bool" where
  "isSystemIconAvailable b =
     (if btype b = Menu \<or> btype b = ApplicationMenu \<or> btype b = OnAllDesktops
         \<or> btype b = ContextHelp \<or> btype b = Shade \<or> btype b = Custom
      then False else True)"

text \<open>
  \<^verbatim>\<open>paintFullHeightButtonBackground\<close>, lines 1113 to 1268: the two guards; the geometry
  of the path is not modelled.
\<close>

definition paintFullHeightButtonBackground :: "Button \<Rightarrow> PaintOp list" where
  "paintFullHeightButtonBackground b =
     (if \<not> isValid (m_backgroundColor b) \<and> \<not> isValid (m_outlineColor b) then []
      else case decoration b of
             None \<Rightarrow> []
           | Some d \<Rightarrow> [FullHeightButtonBackground (m_backgroundColor b) (m_outlineColor b)])"

text \<open>\<^verbatim>\<open>paintSmallSizedButtonBackground\<close>, lines 1270 to 1339.\<close>

definition paintSmallSizedButtonBackground :: "Env \<Rightarrow> Button \<Rightarrow> PaintOp list" where
  "paintSmallSizedButtonBackground env b =
     (if \<not> isValid (m_backgroundColor b) \<and> \<not> isValid (m_outlineColor b) then []
      else case decoration b of
             None \<Rightarrow> []
           | Some d \<Rightarrow>
      (let s = internalSettings d;
           penWidth = (if isPlatformX11 env then PenWidth_Symbol env * m_devicePixelRatio b
                       else PenWidth_Symbol env);
           pen = (if isValid (m_outlineColor b)
                  then (if m_isGtkCsdButton b
                        then SolidPen \<lparr>penColor = m_outlineColor b, penWidthF = penWidth,
                                       penCosmetic = False\<rparr>
                        else SolidPen \<lparr>penColor = m_outlineColor b,
                                       penWidthF = m_standardScaledPenWidth b,
                                       penCosmetic = True\<rparr>)
                  else NoPen);
           brush = (if isValid (m_backgroundColor b) then SolidBrush (m_backgroundColor b)
                    else NoBrush);
           enlarged = (if isValid (m_outlineColor b) then penWidth / 2 else 0) in
       if buttonShape s = ShapeSmallSquare
          \<or> buttonShape s = ShapeFullHeightRectangle
          \<or> (cornerRadius s < 0.2 \<and> buttonShape s = ShapeFullHeightRoundedRectangle)
          \<or> (cornerRadius s < 0.2 \<and> buttonShape s = ShapeIntegratedRoundedRectangle)
       then [SmallSizedButtonBackground DrawRect pen brush enlarged]
       else if buttonShape s = ShapeSmallRoundedSquare
               \<or> buttonShape s = ShapeFullHeightRoundedRectangle
               \<or> buttonShape s = ShapeIntegratedRoundedRectangle
       then [SmallSizedButtonBackground DrawRoundedRect pen brush enlarged]
       else [SmallSizedButtonBackground DrawEllipse pen brush 0]))"

text \<open>The \<^verbatim>\<open>switch (type())\<close> of \<^verbatim>\<open>drawIcon\<close>, lines 298 to 355.\<close>

definition renderedIcon :: "DecorationButtonType \<Rightarrow> bool \<Rightarrow> IconKind option" where
  "renderedIcon t checked =
     (case t of
        Close \<Rightarrow> Some CloseIcon
      | Maximize \<Rightarrow> (if checked then Some RestoreIcon else Some MaximizeIcon)
      | Minimize \<Rightarrow> Some MinimizeIcon
      | OnAllDesktops \<Rightarrow>
          (if checked then Some PinnedOnAllDesktopsIcon else Some PinOnAllDesktopsIcon)
      | Shade \<Rightarrow> (if checked then Some UnShadeIcon else Some ShadeIcon)
      | KeepBelow \<Rightarrow> Some KeepBehindIcon
      | KeepAbove \<Rightarrow> Some KeepInFrontIcon
      | ApplicationMenu \<Rightarrow> Some ApplicationMenuIcon
      | ContextHelp \<Rightarrow> Some ContextHelpIcon
      | _ \<Rightarrow> None)"

text \<open>Lines 271 to 283: the pen of the icon.\<close>

definition iconPen :: "Env \<Rightarrow> Button \<Rightarrow> QPen" where
  "iconPen env b =
     (if m_isGtkCsdButton b
      then \<lparr>penColor = m_foregroundColor b, penWidthF = PenWidth_Symbol env,
            penCosmetic = False\<rparr>
      else \<lparr>penColor = m_foregroundColor b, penWidthF = m_standardScaledPenWidth b,
            penCosmetic = True\<rparr>)"

text \<open>\<^verbatim>\<open>drawIcon\<close>, lines 217 to 357.\<close>

definition drawIcon :: "Env \<Rightarrow> Button \<Rightarrow> PaintOp list" where
  "drawIcon env b =
     (case decoration b of
        None \<Rightarrow> []
      | Some d \<Rightarrow>
          (if \<not> (isStandAlone b \<or> m_isGtkCsdButton b) \<and> buttonBackgroundType d = FullHeight
           then paintFullHeightButtonBackground b else [])
        @ (if buttonBackgroundType d = Small \<or> isStandAlone b \<or> m_isGtkCsdButton b
           then paintSmallSizedButtonBackground env b else [])
        @ (if isValid (m_foregroundColor b)
           then (case renderedIcon (btype b) (isChecked b) of
                   None \<Rightarrow> []
                 | Some icon \<Rightarrow> [RenderIcon icon (iconPen env b)])
           else []))"

text \<open>
  \<^verbatim>\<open>paint\<close>, lines 135 to 214, in three parts: the set-up of lines 146 to 151, the colour
  resolution of lines 153 to 168, and the drawing of lines 177 to 213.
\<close>

definition paintSetup :: "Env \<Rightarrow> Decoration \<Rightarrow> Button \<Rightarrow> Button" where
  "paintSetup env d b =
     (let b1 = setDevicePixelRatio env b;
          b2 = setShouldDrawBoldButtonIcons b1;
          b3 = b2\<lparr>m_systemIconIsAvailable := False\<rparr>;
          b4 = (if buttonIconStyle (internalSettings d) = StyleSystemIconTheme
                then b3\<lparr>m_systemIconIsAvailable := isSystemIconAvailable b3\<rparr> else b3) in
      setStandardScaledPenWidth env b4)"

definition resolveColors :: "Env \<Rightarrow> Decoration \<Rightarrow> Button \<Rightarrow> Button" where
  "resolveColors env d b =
     (case backgroundColor env b InvalidColor False of
        (bg, backgroundColorToContrastWithForeground) \<Rightarrow>
      (let b1 = b\<lparr>m_backgroundColor := bg\<rparr>;
           b2 = b1\<lparr>m_foregroundColor :=
                     foregroundColor env b1 backgroundColorToContrastWithForeground\<rparr>;
           b3 = b2\<lparr>m_lowContrastBetweenTitleBarAndBackground :=
                     (backgroundColors (internalSettings d) \<noteq> ColorsTitlebarText
                      \<and> contrastRatio env (m_backgroundColor b2) (titleBarColor d) < 1.3)\<rparr>;
           b4 = b3\<lparr>m_outlineColor := outlineColor env b3 False\<rparr> in
       if animState (m_animation b4) \<noteq> Running \<and> \<not> isHovered b4
       then b4\<lparr>m_preAnimationForegroundColor := m_foregroundColor b4,
               m_preAnimationBackgroundColor := m_backgroundColor b4,
               m_preAnimationOutlineColor := m_outlineColor b4\<rparr>
       else b4))"

definition paintDraw :: "Env \<Rightarrow> Decoration \<Rightarrow> Button \<Rightarrow> PaintOp list" where
  "paintDraw env d b =
     (if btype b = Menu
      then (if buttonBackgroundType d = FullHeight \<and> \<not> (isStandAlone b \<or> m_isGtkCsdButton b)
            then paintFullHeightButtonBackground b else [])
           @ [ClientIconPaint]
      else drawIcon env b)"

definition paint :: "Env \<Rightarrow> Button \<Rightarrow> Button \<times> PaintOp list" where
  "paint env b =
     (case decoration b of
        None \<Rightarrow> (b, [])
      | Some d \<Rightarrow>
          (let b' = resolveColors env d (paintSetup env d b) in (b', paintDraw env d b')))"

section \<open>Reading a list of paint operations\<close>

fun iconsOf :: "PaintOp list \<Rightarrow> IconKind list" where
  "iconsOf [] = []"
| "iconsOf (RenderIcon k pen # ops) = k # iconsOf ops"
| "iconsOf (op # ops) = iconsOf ops"

fun iconPensOf :: "PaintOp list \<Rightarrow> QPen list" where
  "iconPensOf [] = []"
| "iconPensOf (RenderIcon k pen # ops) = pen # iconPensOf ops"
| "iconPensOf (op # ops) = iconPensOf ops"

fun shapesOf :: "PaintOp list \<Rightarrow> ShapeKind list" where
  "shapesOf [] = []"
| "shapesOf (SmallSizedButtonBackground sh pen brush e # ops) = sh # shapesOf ops"
| "shapesOf (op # ops) = shapesOf ops"

text \<open>
  The animated colour of lines 754 to 765 and 1044 to 1050, as a function of the cached
  pre-animation colour, the hover colour and the opacity.
\<close>

definition animatedColor :: "Env \<Rightarrow> QColor \<Rightarrow> QColor \<Rightarrow> real \<Rightarrow> QColor" where
  "animatedColor env preAnimationColor hoverColor opacity =
     (if isValid preAnimationColor \<and> isValid hoverColor
      then mix env preAnimationColor hoverColor opacity
      else if isValid hoverColor then alphaMix env hoverColor opacity
      else InvalidColor)"

definition hoverOf :: "QColor \<times> QColor \<times> QColor \<Rightarrow> QColor" where
  "hoverOf pal = fst (snd pal)"

text \<open>
  What the validity statements below need of the colour functions and the colour cache:
  every cached colour is valid, a mix of two valid colours is valid, a mix at a bias
  strictly between 0 and 1 is valid whatever its arguments, and the alpha mix of a valid
  colour is valid.
\<close>

definition cacheValid :: "DecorationColors \<Rightarrow> bool" where
  "cacheValid c \<longleftrightarrow>
     isValid (negative c) \<and> isValid (negativeSaturated c) \<and> isValid (negativeLessSaturated c)
     \<and> isValid (fullySaturatedNegative c) \<and> isValid (negativeReducedOpacityBackground c)
     \<and> isValid (negativeReducedOpacityOutline c)
     \<and> isValid (negativeReducedOpacityLessSaturatedBackground c)
     \<and> isValid (neutral c) \<and> isValid (neutralSaturated c) \<and> isValid (neutralLessSaturated c)
     \<and> isValid (neutralReducedOpacityBackground c) \<and> isValid (neutralReducedOpacityOutline c)
     \<and> isValid (positive c) \<and> isValid (positiveSaturated c)
     \<and> isValid (positiveLessSaturated c) \<and> isValid (positiveReducedOpacityBackground c)
     \<and> isValid (positiveReducedOpacityOutline c)
     \<and> isValid (buttonHover c) \<and> isValid (buttonFocus c)
     \<and> isValid (buttonReducedOpacityBackground c) \<and> isValid (buttonReducedOpacityOutline c)"

definition validityPreserving :: "Env \<Rightarrow> bool" where
  "validityPreserving env \<longleftrightarrow>
     cacheValid (g_decorationColors env)
     \<and> (\<forall>c1 c2 t. isValid c1 \<and> isValid c2 \<longrightarrow> isValid (mix env c1 c2 t))
     \<and> (\<forall>c1 c2 t. 0 < t \<and> t < 1 \<longrightarrow> isValid (mix env c1 c2 t))
     \<and> (\<forall>c t. isValid c \<longrightarrow> isValid (alphaMix env c t))"

text \<open>The six flags, each the configured outline flag or the background flag.\<close>

definition outlineOrBackgroundFlags :: "ButtonBehaviouralParameters \<Rightarrow> OutlineFlags" where
  "outlineOrBackgroundFlags p =
     \<lparr>effDrawOutlineAlways = (drawOutlineAlways p \<or> drawBackgroundAlways p),
      effDrawOutlineOnHover = (drawOutlineOnHover p \<or> drawBackgroundOnHover p),
      effDrawOutlineOnFocus = (drawOutlineOnFocus p \<or> drawBackgroundOnFocus p),
      effDrawCloseOutlineAlways = (drawCloseOutlineAlways p \<or> drawCloseBackgroundAlways p),
      effDrawCloseOutlineOnHover = (drawCloseOutlineOnHover p \<or> drawCloseBackgroundOnHover p),
      effDrawCloseOutlineOnFocus = (drawCloseOutlineOnFocus p \<or> drawCloseBackgroundOnFocus p)\<rparr>"

section \<open>The icon and shape tables as the specification words them\<close>

text \<open>The button types of the glossary.\<close>

definition glossaryTypes :: "DecorationButtonType list" where
  "glossaryTypes = [Close, Maximize, Minimize, Shade, KeepAbove, KeepBelow, OnAllDesktops,
                    ApplicationMenu, ContextHelp, Menu]"

text \<open>
  The icon claimed for each type: the restore, pinned and unshade icons for the checked
  Maximize, OnAllDesktops and Shade buttons; none from the icon renderer for Menu.
\<close>

fun claimedIcon :: "DecorationButtonType \<Rightarrow> bool \<Rightarrow> IconKind option" where
  "claimedIcon Close checked = Some CloseIcon"
| "claimedIcon Maximize checked = Some (if checked then RestoreIcon else MaximizeIcon)"
| "claimedIcon Minimize checked = Some MinimizeIcon"
| "claimedIcon OnAllDesktops checked =
     Some (if checked then PinnedOnAllDesktopsIcon else PinOnAllDesktopsIcon)"
| "claimedIcon Shade checked = Some (if checked then UnShadeIcon else ShadeIcon)"
| "claimedIcon KeepBelow checked = Some KeepBehindIcon"
| "claimedIcon KeepAbove checked = Some KeepInFrontIcon"
| "claimedIcon ApplicationMenu checked = Some ApplicationMenuIcon"
| "claimedIcon ContextHelp checked = Some ContextHelpIcon"
| "claimedIcon t checked = None"

text \<open>
  The shape claimed for a button shape and corner radius: a plain square for the small
  square and the full-height rectangle, and for the two rounded rectangles under a radius
  of 0.2; a rounded square for the small rounded square and the two rounded rectangles
  otherwise; a circle in every other case.
\<close>

definition claimedShape :: "EnumButtonShape \<Rightarrow> real \<Rightarrow> ShapeKind" where
  "claimedShape sh radius =
     (if sh = ShapeSmallSquare \<or> sh = ShapeFullHeightRectangle then DrawRect
      else if (sh = ShapeFullHeightRoundedRectangle \<or> sh = ShapeIntegratedRoundedRectangle)
              \<and> radius < 0.2 then DrawRect
      else if sh = ShapeSmallRoundedSquare \<or> sh = ShapeFullHeightRoundedRectangle
              \<or> sh = ShapeIntegratedRoundedRectangle then DrawRoundedRect
      else DrawEllipse)"

section \<open>A concrete environment, decoration and button\<close>

text \<open>
  An instance of everything the functions are parametrised over, on which the theorems
  below are evaluated. \<open>exampleMix\<close> follows \<^verbatim>\<open>KColorUtils::mix\<close> as documented (the first
  colour at a bias of 0 or less, the second at 1 or more, between them the interpolation of
  alpha and of the alpha-weighted channels, an invalid colour counting as opaque black)
  without the rounding of channels. \<open>exampleAlphaMix\<close> scales the alpha of a valid colour.
  \<open>exampleContrastRatio\<close> is the ratio of the lighter to the darker luminance, each plus
  0.05, on a luminance without gamma correction; \<open>exampleHigherContrast\<close> keeps a
  foreground that reaches the threshold and otherwise takes black or white.
\<close>

fun channels :: "QColor \<Rightarrow> real \<times> real \<times> real \<times> real" where
  "channels InvalidColor = (0, 0, 0, 1)"
| "channels (Rgba r g b a) = (r, g, b, a)"

definition exampleMix :: "QColor \<Rightarrow> QColor \<Rightarrow> real \<Rightarrow> QColor" where
  "exampleMix c1 c2 bias =
     (if bias \<le> 0 then c1 else if bias \<ge> 1 then c2
      else (case (channels c1, channels c2) of
              ((r1, g1, b1, a1), (r2, g2, b2, a2)) \<Rightarrow>
                (let a = a1 + (a2 - a1) * bias;
                     ch = (\<lambda>x y. max 0 (min 1 (x * a1 + (y * a2 - x * a1) * bias)) / a) in
                 if a \<le> 0 then Rgba 0 0 0 0 else Rgba (ch r1 r2) (ch g1 g2) (ch b1 b2) a)))"

fun exampleAlphaMix :: "QColor \<Rightarrow> real \<Rightarrow> QColor" where
  "exampleAlphaMix InvalidColor f = InvalidColor"
| "exampleAlphaMix (Rgba r g b a) f = Rgba r g b (a * f)"

definition exampleLuma :: "QColor \<Rightarrow> real" where
  "exampleLuma c = (case channels c of (r, g, b, a) \<Rightarrow> 0.2126 * r + 0.7152 * g + 0.0722 * b)"

definition exampleContrastRatio :: "QColor \<Rightarrow> QColor \<Rightarrow> real" where
  "exampleContrastRatio c1 c2 =
     (max (exampleLuma c1) (exampleLuma c2) + 0.05)
     / (min (exampleLuma c1) (exampleLuma c2) + 0.05)"

definition exampleHigherContrast :: "QColor \<Rightarrow> QColor \<Rightarrow> real \<Rightarrow> QColor" where
  "exampleHigherContrast fg bg threshold =
     (if exampleContrastRatio fg bg \<ge> threshold then fg
      else if exampleContrastRatio (Rgba 0 0 0 1) bg \<ge> exampleContrastRatio Qt_white bg
      then Rgba 0 0 0 1 else Qt_white)"

definition exampleColors :: DecorationColors where
  "exampleColors =
     \<lparr>negative = Rgba 0.8 0.2 0.2 1,
      negativeSaturated = Rgba 0.9 0.1 0.1 1,
      negativeLessSaturated = Rgba 0.7 0.3 0.3 1,
      fullySaturatedNegative = Rgba 1 0 0 1,
      negativeReducedOpacityBackground = Rgba 0.8 0.2 0.2 0.3,
      negativeReducedOpacityOutline = Rgba 0.8 0.2 0.2 0.6,
      negativeReducedOpacityLessSaturatedBackground = Rgba 0.7 0.3 0.3 0.3,
      neutral = Rgba 0.9 0.6 0.1 1,
      neutralSaturated = Rgba 1 0.6 0 1,
      neutralLessSaturated = Rgba 0.8 0.6 0.2 1,
      neutralReducedOpacityBackground = Rgba 0.9 0.6 0.1 0.3,
      neutralReducedOpacityOutline = Rgba 0.9 0.6 0.1 0.6,
      positive = Rgba 0.2 0.7 0.3 1,
      positiveSaturated = Rgba 0.1 0.8 0.2 1,
      positiveLessSaturated = Rgba 0.3 0.6 0.4 1,
      positiveReducedOpacityBackground = Rgba 0.2 0.7 0.3 0.3,
      positiveReducedOpacityOutline = Rgba 0.2 0.7 0.3 0.6,
      buttonHover = Rgba 0.2 0.5 0.9 1,
      buttonFocus = Rgba 0.1 0.4 0.8 1,
      buttonReducedOpacityBackground = Rgba 0.2 0.5 0.9 0.3,
      buttonReducedOpacityOutline = Rgba 0.2 0.5 0.9 0.6\<rparr>"

definition exampleEnv :: Env where
  "exampleEnv =
     \<lparr>mix = exampleMix, alphaMix = exampleAlphaMix, contrastRatio = exampleContrastRatio,
      getHigherContrastForegroundColor = exampleHigherContrast,
      g_decorationColors = exampleColors, PenWidth_Symbol = 1.01, isPlatformX11 = False,
      painterDevicePixelRatioF = 2, applicationName = ''kwin_wayland''\<rparr>"

definition exampleSettings :: InternalSettings where
  "exampleSettings =
     \<lparr>backgroundColors = ColorsAccent, translucentButtonBackgrounds = True,
      redAlwaysShownClose = False, buttonShape = ShapeSmallCircle, cornerRadius = 3,
      buttonIconStyle = StyleDrawnByTheme, boldButtonIcons = BoldIconsFine\<rparr>"

definition exampleParameters :: ButtonBehaviouralParameters where
  "exampleParameters =
     \<lparr>drawBackgroundAlways = True, drawBackgroundOnHover = True, drawBackgroundOnFocus = True,
      drawCloseBackgroundAlways = True, drawCloseBackgroundOnHover = True,
      drawCloseBackgroundOnFocus = True,
      drawOutlineAlways = False, drawOutlineOnHover = False, drawOutlineOnFocus = False,
      drawCloseOutlineAlways = False, drawCloseOutlineOnHover = False,
      drawCloseOutlineOnFocus = False,
      drawIconAlways = True, drawIconOnHover = True, drawIconOnFocus = True\<rparr>"

definition exampleDecoration :: Decoration where
  "exampleDecoration =
     \<lparr>internalSettings = exampleSettings, m_buttonBehaviouralParameters = exampleParameters,
      titleBarColor = Rgba 0.2 0.2 0.2 1, fontColor = Rgba 0.9 0.9 0.9 1,
      animationsDuration = 200, buttonBackgroundType = Small, systemScaleFactor = 2,
      client = \<lparr>isCloseable = True, isMaximizeable = True, isMinimizeable = True,
                providesContextHelp = False, isShadeable = False\<rparr>\<rparr>"

definition exampleAnimation :: QVariantAnimation where
  "exampleAnimation =
     \<lparr>startValue = 0, endValue = 1, easingCurve = InOutQuad, duration = 200,
      direction = Forward, animState = Stopped, currentTime = 0\<rparr>"

definition exampleButton :: Button where
  "exampleButton =
     \<lparr>btype = Close, decoration = Some exampleDecoration, isHovered = False,
      isPressed = False, isChecked = False, isVisible = True, isStandAlone = False,
      m_animation = exampleAnimation, m_opacity = 0, m_isGtkCsdButton = False,
      m_devicePixelRatio = 1, m_standardScaledPenWidth = 1.01,
      m_systemIconIsAvailable = False, m_boldButtonIcons = False,
      m_backgroundColor = InvalidColor, m_foregroundColor = InvalidColor,
      m_outlineColor = InvalidColor, m_preAnimationBackgroundColor = InvalidColor,
      m_preAnimationForegroundColor = InvalidColor,
      m_preAnimationOutlineColor = InvalidColor,
      m_lowContrastBetweenTitleBarAndBackground = False\<rparr>"

section \<open>Properties\<close>

subsection \<open>Which fields the colour functions read\<close>

lemma backgroundSelect_cong:
  "btype b1 = btype b2 \<Longrightarrow> isHovered b1 = isHovered b2
   \<Longrightarrow> isPressed b1 = isPressed b2 \<Longrightarrow> isChecked b1 = isChecked b2
   \<Longrightarrow> animState (m_animation b1) = animState (m_animation b2)
   \<Longrightarrow> animState (m_animation b1) \<noteq> Running \<or> g
       \<or> (m_opacity b1 = m_opacity b2
          \<and> m_preAnimationBackgroundColor b1 = m_preAnimationBackgroundColor b2)
   \<Longrightarrow> backgroundSelect env d b1 g pal = backgroundSelect env d b2 g pal"
  apply (cases pal)
  apply (elim disjE conjE)
    apply (simp_all add: backgroundSelect_def Let_def split del: if_split cong: if_cong)
  done

lemma backgroundColor_cong:
  "btype b1 = btype b2 \<Longrightarrow> decoration b1 = decoration b2 \<Longrightarrow> isHovered b1 = isHovered b2
   \<Longrightarrow> isPressed b1 = isPressed b2 \<Longrightarrow> isChecked b1 = isChecked b2
   \<Longrightarrow> animState (m_animation b1) = animState (m_animation b2)
   \<Longrightarrow> animState (m_animation b1) \<noteq> Running \<or> g
       \<or> (m_opacity b1 = m_opacity b2
          \<and> m_preAnimationBackgroundColor b1 = m_preAnimationBackgroundColor b2)
   \<Longrightarrow> backgroundColor env b1 x g = backgroundColor env b2 x g"
  using backgroundSelect_cong [of b1 b2 g]
  by (cases "decoration b2") (simp_all add: backgroundColor_def)

lemma foregroundColorState_cong:
  "btype b1 = btype b2 \<Longrightarrow> isHovered b1 = isHovered b2
   \<Longrightarrow> isPressed b1 = isPressed b2 \<Longrightarrow> isChecked b1 = isChecked b2
   \<Longrightarrow> animState (m_animation b1) = animState (m_animation b2)
   \<Longrightarrow> foregroundColorState d b1 = foregroundColorState d b2"
  by (simp add: foregroundColorState_def Let_def split del: if_split cong: if_cong)

lemma foregroundColorState_not_running:
  "animState (m_animation b) \<noteq> Running
   \<Longrightarrow> foregroundColorState d b \<noteq> ForegroundColorState_animatedHover"
  by (simp add: foregroundColorState_def Let_def)

lemma foregroundColor_cong:
  "btype b1 = btype b2 \<Longrightarrow> decoration b1 = decoration b2 \<Longrightarrow> isHovered b1 = isHovered b2
   \<Longrightarrow> isPressed b1 = isPressed b2 \<Longrightarrow> isChecked b1 = isChecked b2
   \<Longrightarrow> animState (m_animation b1) = animState (m_animation b2)
   \<Longrightarrow> animState (m_animation b1) \<noteq> Running
       \<or> (m_opacity b1 = m_opacity b2
          \<and> m_preAnimationForegroundColor b1 = m_preAnimationForegroundColor b2)
   \<Longrightarrow> foregroundColor env b1 x = foregroundColor env b2 x"
proof (cases "decoration b2")
  case None
  assume "decoration b1 = decoration b2"
  with None show ?thesis by (simp add: foregroundColor_def)
next
  case (Some d)
  assume eqs: "btype b1 = btype b2" "decoration b1 = decoration b2"
    "isHovered b1 = isHovered b2" "isPressed b1 = isPressed b2" "isChecked b1 = isChecked b2"
    "animState (m_animation b1) = animState (m_animation b2)"
  assume alt: "animState (m_animation b1) \<noteq> Running
       \<or> (m_opacity b1 = m_opacity b2
          \<and> m_preAnimationForegroundColor b1 = m_preAnimationForegroundColor b2)"
  have st: "foregroundColorState d b1 = foregroundColorState d b2"
    using eqs by (intro foregroundColorState_cong)
  obtain n h f where pal: "foregroundPalette env d (btype b2) x = (n, h, f)"
    by (cases "foregroundPalette env d (btype b2) x") auto
  from alt show ?thesis
  proof
    assume nr: "animState (m_animation b1) \<noteq> Running"
    then have "foregroundColorState d b2 \<noteq> ForegroundColorState_animatedHover"
      using foregroundColorState_not_running [of b1 d] st by simp
    then show ?thesis
      using Some eqs(2) st pal
      by (cases "foregroundColorState d b2") (simp_all add: foregroundColor_def eqs(1))
  next
    assume "m_opacity b1 = m_opacity b2
          \<and> m_preAnimationForegroundColor b1 = m_preAnimationForegroundColor b2"
    then show ?thesis
      using Some eqs(2) st pal
      by (cases "foregroundColorState d b2") (simp_all add: foregroundColor_def eqs(1))
  qed
qed

lemma outlineSelect_cong:
  "btype b1 = btype b2 \<Longrightarrow> isHovered b1 = isHovered b2
   \<Longrightarrow> isPressed b1 = isPressed b2 \<Longrightarrow> isChecked b1 = isChecked b2
   \<Longrightarrow> animState (m_animation b1) = animState (m_animation b2)
   \<Longrightarrow> animState (m_animation b1) \<noteq> Running \<or> g
       \<or> (m_opacity b1 = m_opacity b2
          \<and> m_preAnimationOutlineColor b1 = m_preAnimationOutlineColor b2)
   \<Longrightarrow> outlineSelect env d b1 g pal = outlineSelect env d b2 g pal"
  apply (cases pal)
  apply (elim disjE conjE)
    apply (simp_all add: outlineSelect_def Let_def split del: if_split cong: if_cong)
  done

lemma outlineColor_cong:
  "btype b1 = btype b2 \<Longrightarrow> decoration b1 = decoration b2 \<Longrightarrow> isHovered b1 = isHovered b2
   \<Longrightarrow> isPressed b1 = isPressed b2 \<Longrightarrow> isChecked b1 = isChecked b2
   \<Longrightarrow> animState (m_animation b1) = animState (m_animation b2)
   \<Longrightarrow> m_lowContrastBetweenTitleBarAndBackground b1
       = m_lowContrastBetweenTitleBarAndBackground b2
   \<Longrightarrow> animState (m_animation b1) \<noteq> Running \<or> g
       \<or> (m_opacity b1 = m_opacity b2
          \<and> m_preAnimationOutlineColor b1 = m_preAnimationOutlineColor b2)
   \<Longrightarrow> outlineColor env b1 g = outlineColor env b2 g"
  using outlineSelect_cong [of b1 b2 g]
  by (cases "decoration b2") (simp_all add: outlineColor_def)

subsection \<open>What the set-up and the resolution of \<^verbatim>\<open>paint\<close> leave alone\<close>

lemma paintSetup_fields:
  "btype (paintSetup env d b) = btype b"
  "decoration (paintSetup env d b) = decoration b"
  "isHovered (paintSetup env d b) = isHovered b"
  "isPressed (paintSetup env d b) = isPressed b"
  "isChecked (paintSetup env d b) = isChecked b"
  "isStandAlone (paintSetup env d b) = isStandAlone b"
  "m_animation (paintSetup env d b) = m_animation b"
  "m_opacity (paintSetup env d b) = m_opacity b"
  "m_isGtkCsdButton (paintSetup env d b) = m_isGtkCsdButton b"
  "m_foregroundColor (paintSetup env d b) = m_foregroundColor b"
  "m_preAnimationBackgroundColor (paintSetup env d b) = m_preAnimationBackgroundColor b"
  "m_preAnimationForegroundColor (paintSetup env d b) = m_preAnimationForegroundColor b"
  "m_preAnimationOutlineColor (paintSetup env d b) = m_preAnimationOutlineColor b"
  by (simp_all add: paintSetup_def Let_def setDevicePixelRatio_def
      setShouldDrawBoldButtonIcons_def setStandardScaledPenWidth_def split: option.splits)

lemma paintSetup_penWidth:
  "m_standardScaledPenWidth (paintSetup env d b)
     = PenWidth_Symbol env * m_devicePixelRatio (paintSetup env d b)"
  by (simp add: paintSetup_def Let_def setDevicePixelRatio_def
      setShouldDrawBoldButtonIcons_def setStandardScaledPenWidth_def split: option.splits)

lemma paintSetup_devicePixelRatio:
  "decoration b = Some d \<Longrightarrow>
   m_devicePixelRatio (paintSetup env d b)
     = (if m_isGtkCsdButton b \<or> isPlatformX11 env then systemScaleFactor d
        else painterDevicePixelRatioF env)"
  by (simp add: paintSetup_def Let_def setDevicePixelRatio_def
      setShouldDrawBoldButtonIcons_def setStandardScaledPenWidth_def)

lemma resolveColors_fields:
  "btype (resolveColors env d b) = btype b"
  "decoration (resolveColors env d b) = decoration b"
  "isChecked (resolveColors env d b) = isChecked b"
  "isStandAlone (resolveColors env d b) = isStandAlone b"
  "m_isGtkCsdButton (resolveColors env d b) = m_isGtkCsdButton b"
  "m_devicePixelRatio (resolveColors env d b) = m_devicePixelRatio b"
  "m_standardScaledPenWidth (resolveColors env d b) = m_standardScaledPenWidth b"
  by (simp_all add: resolveColors_def Let_def split: prod.splits)

lemma resolveColors_colors:
  "m_backgroundColor (resolveColors env d b) = fst (backgroundColor env b InvalidColor False)"
  "m_foregroundColor (resolveColors env d b)
     = foregroundColor env b (snd (backgroundColor env b InvalidColor False))"
  "m_lowContrastBetweenTitleBarAndBackground (resolveColors env d b)
     = (backgroundColors (internalSettings d) \<noteq> ColorsTitlebarText
        \<and> contrastRatio env (fst (backgroundColor env b InvalidColor False))
             (titleBarColor d) < 1.3)"
  "m_outlineColor (resolveColors env d b)
     = outlineColor env
         (b\<lparr>m_lowContrastBetweenTitleBarAndBackground :=
              (backgroundColors (internalSettings d) \<noteq> ColorsTitlebarText
               \<and> contrastRatio env (fst (backgroundColor env b InvalidColor False))
                    (titleBarColor d) < 1.3)\<rparr>) False"
proof -
  obtain bg fcc where bg: "backgroundColor env b InvalidColor False = (bg, fcc)"
    by (cases "backgroundColor env b InvalidColor False") auto
  have fg: "foregroundColor env (b\<lparr>m_backgroundColor := bg\<rparr>) fcc = foregroundColor env b fcc"
    by (rule foregroundColor_cong) simp_all
  have ol: "\<And>L fgc. outlineColor env
              (b\<lparr>m_backgroundColor := bg, m_foregroundColor := fgc,
                 m_lowContrastBetweenTitleBarAndBackground := L\<rparr>) False
            = outlineColor env (b\<lparr>m_lowContrastBetweenTitleBarAndBackground := L\<rparr>) False"
    by (rule outlineColor_cong) simp_all
  show "m_backgroundColor (resolveColors env d b)
          = fst (backgroundColor env b InvalidColor False)"
    by (simp add: resolveColors_def Let_def bg)
  show "m_foregroundColor (resolveColors env d b)
          = foregroundColor env b (snd (backgroundColor env b InvalidColor False))"
    by (simp add: resolveColors_def Let_def bg fg)
  show "m_lowContrastBetweenTitleBarAndBackground (resolveColors env d b)
     = (backgroundColors (internalSettings d) \<noteq> ColorsTitlebarText
        \<and> contrastRatio env (fst (backgroundColor env b InvalidColor False))
             (titleBarColor d) < 1.3)"
    by (simp add: resolveColors_def Let_def bg)
  show "m_outlineColor (resolveColors env d b)
     = outlineColor env
         (b\<lparr>m_lowContrastBetweenTitleBarAndBackground :=
              (backgroundColors (internalSettings d) \<noteq> ColorsTitlebarText
               \<and> contrastRatio env (fst (backgroundColor env b InvalidColor False))
                    (titleBarColor d) < 1.3)\<rparr>) False"
    by (simp add: resolveColors_def Let_def bg ol)
qed


subsection \<open>Paint operations of the painters\<close>

lemma iconsOf_append: "iconsOf (xs @ ys) = iconsOf xs @ iconsOf ys"
  by (induction xs rule: iconsOf.induct) simp_all

lemma iconPensOf_append: "iconPensOf (xs @ ys) = iconPensOf xs @ iconPensOf ys"
  by (induction xs rule: iconPensOf.induct) simp_all

lemma iconsOf_fullHeight: "iconsOf (paintFullHeightButtonBackground b) = []"
  by (simp add: paintFullHeightButtonBackground_def split: option.splits)

lemma iconsOf_small: "iconsOf (paintSmallSizedButtonBackground env b) = []"
  by (simp add: paintSmallSizedButtonBackground_def Let_def split: option.splits)

lemma iconPensOf_fullHeight: "iconPensOf (paintFullHeightButtonBackground b) = []"
  by (simp add: paintFullHeightButtonBackground_def split: option.splits)

lemma iconPensOf_small: "iconPensOf (paintSmallSizedButtonBackground env b) = []"
  by (simp add: paintSmallSizedButtonBackground_def Let_def split: option.splits)

lemma renderedIcon_claimed:
  "t \<in> set glossaryTypes \<Longrightarrow> renderedIcon t checked = claimedIcon t checked"
  by (auto simp add: glossaryTypes_def renderedIcon_def)

lemma claimedIcon_glossary:
  "t \<in> set glossaryTypes \<Longrightarrow> t \<noteq> Menu \<Longrightarrow> claimedIcon t checked \<noteq> None"
  by (auto simp add: glossaryTypes_def)

lemma iconsOf_drawIcon:
  "map Some (iconsOf (drawIcon env b)) =
     (if decoration b \<noteq> None \<and> isValid (m_foregroundColor b)
         \<and> renderedIcon (btype b) (isChecked b) \<noteq> None
      then [renderedIcon (btype b) (isChecked b)] else [])"
  by (auto simp add: drawIcon_def iconsOf_append iconsOf_fullHeight iconsOf_small
           split: option.splits)

lemma iconPensOf_drawIcon:
  "iconPensOf (drawIcon env b) =
     (if decoration b \<noteq> None \<and> isValid (m_foregroundColor b)
         \<and> renderedIcon (btype b) (isChecked b) \<noteq> None
      then [iconPen env b] else [])"
  by (auto simp add: drawIcon_def iconPensOf_append iconPensOf_fullHeight iconPensOf_small
           split: option.splits)

lemma paint_Some:
  "decoration b = Some d \<Longrightarrow>
   paint env b = (resolveColors env d (paintSetup env d b),
                  paintDraw env d (resolveColors env d (paintSetup env d b)))"
  by (simp add: paint_def Let_def)

lemma paint_fields:
  assumes "decoration b = Some d"
  shows "btype (fst (paint env b)) = btype b"
    and "isChecked (fst (paint env b)) = isChecked b"
    and "decoration (fst (paint env b)) = Some d"
    and "m_isGtkCsdButton (fst (paint env b)) = m_isGtkCsdButton b"
    and "isStandAlone (fst (paint env b)) = isStandAlone b"
  using assms by (simp_all add: paint_Some resolveColors_fields paintSetup_fields)

lemma paint_draws_resolved:
  "decoration b = Some d \<Longrightarrow> snd (paint env b) = paintDraw env d (fst (paint env b))"
  by (simp add: paint_Some)

lemma paint_colors:
  assumes d: "decoration b = Some d"
  shows "m_backgroundColor (fst (paint env b))
          = fst (backgroundColor env b InvalidColor False)"
    and "m_foregroundColor (fst (paint env b))
          = foregroundColor env b (snd (backgroundColor env b InvalidColor False))"
    and "m_lowContrastBetweenTitleBarAndBackground (fst (paint env b))
          = (backgroundColors (internalSettings d) \<noteq> ColorsTitlebarText
             \<and> contrastRatio env (m_backgroundColor (fst (paint env b))) (titleBarColor d)
                 < 1.3)"
    and "m_outlineColor (fst (paint env b))
          = outlineColor env
              (b\<lparr>m_lowContrastBetweenTitleBarAndBackground :=
                   m_lowContrastBetweenTitleBarAndBackground (fst (paint env b))\<rparr>) False"
proof -
  let ?s = "paintSetup env d b"
  have bg: "\<And>x g. backgroundColor env ?s x g = backgroundColor env b x g"
    by (rule backgroundColor_cong) (simp_all add: paintSetup_fields)
  have fg: "\<And>x. foregroundColor env ?s x = foregroundColor env b x"
    by (rule foregroundColor_cong) (simp_all add: paintSetup_fields)
  have ol: "\<And>L. outlineColor env (?s\<lparr>m_lowContrastBetweenTitleBarAndBackground := L\<rparr>) False
              = outlineColor env (b\<lparr>m_lowContrastBetweenTitleBarAndBackground := L\<rparr>) False"
    by (rule outlineColor_cong) (simp_all add: paintSetup_fields)
  show "m_backgroundColor (fst (paint env b))
          = fst (backgroundColor env b InvalidColor False)"
    by (simp add: paint_Some [OF d] resolveColors_colors bg)
  show "m_foregroundColor (fst (paint env b))
        = foregroundColor env b (snd (backgroundColor env b InvalidColor False))"
    by (simp add: paint_Some [OF d] resolveColors_colors bg fg)
  show "m_lowContrastBetweenTitleBarAndBackground (fst (paint env b))
        = (backgroundColors (internalSettings d) \<noteq> ColorsTitlebarText
           \<and> contrastRatio env (m_backgroundColor (fst (paint env b))) (titleBarColor d) < 1.3)"
    by (simp add: paint_Some [OF d] resolveColors_colors bg)
  show "m_outlineColor (fst (paint env b))
        = outlineColor env
            (b\<lparr>m_lowContrastBetweenTitleBarAndBackground :=
                 m_lowContrastBetweenTitleBarAndBackground (fst (paint env b))\<rparr>) False"
    by (simp add: paint_Some [OF d] resolveColors_colors bg ol)
qed

subsection \<open>Properties of the dialog, the resolver and the painters\<close>

text \<open>
  C3. In \<^verbatim>\<open>TitleBarOpacity::save\<close> the inactive title-bar opacity of the UI is written
  to the settings exactly when the inactive scheme colour is opaque, or the ACTIVE scheme
  colour is translucent and the ACTIVE override box is checked; the value persisted is then
  the UI value and otherwise the loaded one. The active opacity is written under the
  condition on the active flags, so the inactive condition mixes the two sides.
\<close>

theorem save_inactive_opacity_condition:
  "filter isSetInactiveTitlebarOpacity (saveWrites t) =
     (if \<not> m_translucentInactiveSchemeColor t
         \<or> (m_translucentActiveSchemeColor t \<and> ui_overrideActiveTitleBarOpacity (m_ui t))
      then [SetInactiveTitlebarOpacity (ui_inactiveTitlebarOpacity (m_ui t))] else [])
   \<and> inactiveTitlebarOpacity (save t loaded) =
     (if \<not> m_translucentInactiveSchemeColor t
         \<or> (m_translucentActiveSchemeColor t \<and> ui_overrideActiveTitleBarOpacity (m_ui t))
      then ui_inactiveTitlebarOpacity (m_ui t) else inactiveTitlebarOpacity loaded)
   \<and> filter isSetActiveTitlebarOpacity (saveWrites t) =
     (if \<not> m_translucentActiveSchemeColor t
         \<or> (m_translucentActiveSchemeColor t \<and> ui_overrideActiveTitleBarOpacity (m_ui t))
      then [SetActiveTitlebarOpacity (ui_activeTitlebarOpacity (m_ui t))] else [])
   \<and> activeTitlebarOpacity (save t loaded) =
     (if \<not> m_translucentActiveSchemeColor t
         \<or> (m_translucentActiveSchemeColor t \<and> ui_overrideActiveTitleBarOpacity (m_ui t))
      then ui_activeTitlebarOpacity (m_ui t) else activeTitlebarOpacity loaded)"
  by (simp add: saveWrites_def save_def)

theorem save_inactive_opacity_condition_witness:
  "inactiveTitlebarOpacity
     (save \<lparr>m_ui = \<lparr>ui_overrideActiveTitleBarOpacity = True,
                     ui_overrideInactiveTitleBarOpacity = False,
                     ui_activeTitlebarOpacity = 80, ui_inactiveTitlebarOpacity = 60,
                     ui_opaqueMaximizedTitlebars = True, ui_blurTransparentTitlebars = True,
                     ui_applyOpacityToHeader = True\<rparr>,
            m_translucentActiveSchemeColor = True, m_translucentInactiveSchemeColor = True\<rparr>
        \<lparr>overrideActiveTitleBarOpacity = False, overrideInactiveTitleBarOpacity = False,
         activeTitlebarOpacity = 100, inactiveTitlebarOpacity = 100,
         opaqueMaximizedTitlebars = True, blurTransparentTitlebars = True,
         applyOpacityToHeader = True\<rparr>) = 60"
  using save_inactive_opacity_condition
    [of "\<lparr>m_ui = \<lparr>ui_overrideActiveTitleBarOpacity = True,
                     ui_overrideInactiveTitleBarOpacity = False,
                     ui_activeTitlebarOpacity = 80, ui_inactiveTitlebarOpacity = 60,
                     ui_opaqueMaximizedTitlebars = True, ui_blurTransparentTitlebars = True,
                     ui_applyOpacityToHeader = True\<rparr>,
            m_translucentActiveSchemeColor = True, m_translucentInactiveSchemeColor = True\<rparr>"
        "\<lparr>overrideActiveTitleBarOpacity = False, overrideInactiveTitleBarOpacity = False,
         activeTitlebarOpacity = 100, inactiveTitlebarOpacity = 100,
         opaqueMaximizedTitlebars = True, blurTransparentTitlebars = True,
         applyOpacityToHeader = True\<rparr>"]
  by simp

text \<open>
  C10. Without a Breeze decoration \<^verbatim>\<open>foregroundColor\<close>, \<^verbatim>\<open>backgroundColor\<close> and
  \<^verbatim>\<open>outlineColor\<close> return the invalid colour. With one, \<^verbatim>\<open>foregroundColor\<close> returns the
  invalid colour whenever no icon-drawing condition applies: the button is not pressed with
  \<^verbatim>\<open>drawIconOnFocus\<close>, is not a checked toggle button (KeepBelow, KeepAbove, Shade,
  OnAllDesktops), is not hovered or animating with \<^verbatim>\<open>drawIconOnHover\<close>, and
  \<^verbatim>\<open>drawIconAlways\<close> is false. \<^verbatim>\<open>Button::create\<close> returns \<^verbatim>\<open>nullptr\<close> exactly when the
  decoration it is given is not a Breeze decoration.
\<close>

theorem invalid_colors_and_create_null:
  "(decoration b = None \<longrightarrow>
      foregroundColor env b c = InvalidColor
    \<and> fst (backgroundColor env b fcc g) = InvalidColor
    \<and> outlineColor env b g = InvalidColor)
 \<and> (\<forall>d. decoration b = Some d
        \<and> \<not> (isPressed b \<and> drawIconOnFocus (m_buttonBehaviouralParameters d))
        \<and> \<not> (isChecked b \<and> (btype b = KeepBelow \<or> btype b = KeepAbove \<or> btype b = Shade
                              \<or> btype b = OnAllDesktops))
        \<and> \<not> ((isHovered b \<or> animState (m_animation b) = Running)
               \<and> drawIconOnHover (m_buttonBehaviouralParameters d))
        \<and> \<not> drawIconAlways (m_buttonBehaviouralParameters d)
      \<longrightarrow> foregroundColor env b c = InvalidColor)
 \<and> (create env t k b0 = None \<longleftrightarrow> (\<forall>d. k \<noteq> BreezeDecoration d))"
proof (intro conjI)
  show "decoration b = None \<longrightarrow>
      foregroundColor env b c = InvalidColor
    \<and> fst (backgroundColor env b fcc g) = InvalidColor
    \<and> outlineColor env b g = InvalidColor"
    by (simp add: foregroundColor_def backgroundColor_def outlineColor_def)
  show "\<forall>d. decoration b = Some d
        \<and> \<not> (isPressed b \<and> drawIconOnFocus (m_buttonBehaviouralParameters d))
        \<and> \<not> (isChecked b \<and> (btype b = KeepBelow \<or> btype b = KeepAbove \<or> btype b = Shade
                              \<or> btype b = OnAllDesktops))
        \<and> \<not> ((isHovered b \<or> animState (m_animation b) = Running)
               \<and> drawIconOnHover (m_buttonBehaviouralParameters d))
        \<and> \<not> drawIconAlways (m_buttonBehaviouralParameters d)
      \<longrightarrow> foregroundColor env b c = InvalidColor"
  proof (intro allI impI)
    fix d
    assume a: "decoration b = Some d
        \<and> \<not> (isPressed b \<and> drawIconOnFocus (m_buttonBehaviouralParameters d))
        \<and> \<not> (isChecked b \<and> (btype b = KeepBelow \<or> btype b = KeepAbove \<or> btype b = Shade
                              \<or> btype b = OnAllDesktops))
        \<and> \<not> ((isHovered b \<or> animState (m_animation b) = Running)
               \<and> drawIconOnHover (m_buttonBehaviouralParameters d))
        \<and> \<not> drawIconAlways (m_buttonBehaviouralParameters d)"
    then have "foregroundColorState d b = ForegroundColorState_none"
      by (auto simp add: foregroundColorState_def Let_def)
    with a show "foregroundColor env b c = InvalidColor"
      by (simp add: foregroundColor_def split: prod.splits)
  qed
  show "create env t k b0 = None \<longleftrightarrow> (\<forall>d. k \<noteq> BreezeDecoration d)"
    by (cases k) (simp_all add: create_def Let_def)
qed

theorem invalid_colors_and_create_null_witness:
  "foregroundColor exampleEnv (exampleButton\<lparr>decoration := None\<rparr>) InvalidColor = InvalidColor
   \<and> fst (backgroundColor exampleEnv (exampleButton\<lparr>decoration := None\<rparr>) InvalidColor False)
       = InvalidColor
   \<and> outlineColor exampleEnv (exampleButton\<lparr>decoration := None\<rparr>) False = InvalidColor
   \<and> foregroundColor exampleEnv
        (exampleButton\<lparr>decoration :=
           Some (exampleDecoration\<lparr>m_buttonBehaviouralParameters :=
                   exampleParameters\<lparr>drawIconAlways := False\<rparr>\<rparr>)\<rparr>) InvalidColor
       = InvalidColor
   \<and> create exampleEnv Close ForeignDecoration exampleButton = None
   \<and> create exampleEnv Close (BreezeDecoration exampleDecoration) exampleButton \<noteq> None"
  using invalid_colors_and_create_null
          [of "exampleButton\<lparr>decoration := None\<rparr>" exampleEnv InvalidColor InvalidColor False
              Close ForeignDecoration exampleButton]
        invalid_colors_and_create_null
          [of "exampleButton\<lparr>decoration :=
                 Some (exampleDecoration\<lparr>m_buttonBehaviouralParameters :=
                         exampleParameters\<lparr>drawIconAlways := False\<rparr>\<rparr>)\<rparr>"
              exampleEnv InvalidColor InvalidColor False
              Close "BreezeDecoration exampleDecoration" exampleButton]
  by (simp add: exampleButton_def exampleParameters_def exampleAnimation_def)

text \<open>
  C8. \<^verbatim>\<open>reconfigure\<close> gives the animation the duration of the decoration's
  \<^verbatim>\<open>animationsDuration\<close>. \<^verbatim>\<open>updateAnimationState\<close> changes nothing, so starts nothing, when
  there is no decoration or that duration is zero or negative. Otherwise the direction
  becomes forward on hover and backward on unhover, a running animation is left running
  as it is (not restarted), and one that is not running is started.
\<close>

theorem animation_duration_and_start:
  "(\<forall>d. decoration b = Some d \<longrightarrow>
        duration (m_animation (reconfigure b)) = animationsDuration d)
 \<and> ((decoration b = None \<or> (\<exists>d. decoration b = Some d \<and> animationsDuration d \<le> 0))
      \<longrightarrow> updateAnimationState b hovered = b)
 \<and> (\<forall>d. decoration b = Some d \<and> animationsDuration d > 0 \<longrightarrow>
        direction (m_animation (updateAnimationState b hovered))
          = (if hovered then Forward else Backward)
      \<and> animState (m_animation (updateAnimationState b hovered)) = Running
      \<and> (animState (m_animation b) = Running \<longrightarrow>
           m_animation (updateAnimationState b hovered)
             = (m_animation b)\<lparr>direction := (if hovered then Forward else Backward)\<rparr>)
      \<and> (animState (m_animation b) \<noteq> Running \<longrightarrow>
           m_animation (updateAnimationState b hovered)
             = QAbstractAnimation_start
                 ((m_animation b)\<lparr>direction := (if hovered then Forward else Backward)\<rparr>)))"
  by (auto simp add: reconfigure_def updateAnimationState_def Let_def
        QAbstractAnimation_start_def)

theorem animation_duration_and_start_witness:
  "duration (m_animation (reconfigure (exampleButton\<lparr>m_animation :=
       exampleAnimation\<lparr>duration := 250\<rparr>\<rparr>))) = 200
   \<and> updateAnimationState
        (exampleButton\<lparr>decoration := Some (exampleDecoration\<lparr>animationsDuration := 0\<rparr>)\<rparr>)
        True
       = exampleButton\<lparr>decoration := Some (exampleDecoration\<lparr>animationsDuration := 0\<rparr>)\<rparr>
   \<and> direction (m_animation (updateAnimationState exampleButton True)) = Forward
   \<and> direction (m_animation (updateAnimationState exampleButton False)) = Backward
   \<and> animState (m_animation (updateAnimationState exampleButton True)) = Running
   \<and> currentTime (m_animation (updateAnimationState
        (exampleButton\<lparr>m_animation :=
           exampleAnimation\<lparr>animState := Running, currentTime := 120\<rparr>\<rparr>) False)) = 120"
  using animation_duration_and_start
          [of "exampleButton\<lparr>m_animation := exampleAnimation\<lparr>duration := 250\<rparr>\<rparr>" True]
        animation_duration_and_start
          [of "exampleButton\<lparr>decoration :=
                 Some (exampleDecoration\<lparr>animationsDuration := 0\<rparr>)\<rparr>" True]
        animation_duration_and_start [of exampleButton True]
        animation_duration_and_start [of exampleButton False]
        animation_duration_and_start
          [of "exampleButton\<lparr>m_animation :=
                 exampleAnimation\<lparr>animState := Running, currentTime := 120\<rparr>\<rparr>" False]
  by (simp add: exampleButton_def exampleDecoration_def exampleAnimation_def
        reconfigure_def updateAnimationState_def QAbstractAnimation_start_def Let_def)

text \<open>
  C5. For every button type of the glossary other than Menu, the icon \<^verbatim>\<open>drawIcon\<close> has the
  icon renderer render is the icon claimed for the type and the checked state, and it is
  the only one; it is rendered when the button has a decoration and its foreground colour
  is valid, and no icon is rendered otherwise. \<^verbatim>\<open>paint\<close> draws such a button with
  \<^verbatim>\<open>drawIcon\<close>. A Menu button is painted by \<^verbatim>\<open>paint\<close> from the client's window icon, with
  no icon of the icon renderer.
\<close>

theorem drawIcon_renders_icon_of_type:
  "(btype b \<in> set glossaryTypes \<and> btype b \<noteq> Menu \<longrightarrow>
      map Some (iconsOf (drawIcon env b)) =
        (if decoration b \<noteq> None \<and> isValid (m_foregroundColor b)
         then [claimedIcon (btype b) (isChecked b)] else []))
 \<and> (decoration b \<noteq> None \<and> btype b \<in> set glossaryTypes \<and> btype b \<noteq> Menu \<longrightarrow>
      snd (paint env b) = drawIcon env (fst (paint env b))
      \<and> map Some (iconsOf (snd (paint env b))) =
          (if isValid (m_foregroundColor (fst (paint env b)))
           then [claimedIcon (btype b) (isChecked b)] else []))
 \<and> (decoration b \<noteq> None \<and> btype b = Menu \<longrightarrow>
      iconsOf (snd (paint env b)) = [] \<and> ClientIconPaint \<in> set (snd (paint env b)))"
proof (intro conjI impI)
  assume a: "btype b \<in> set glossaryTypes \<and> btype b \<noteq> Menu"
  then have "renderedIcon (btype b) (isChecked b) = claimedIcon (btype b) (isChecked b)"
    by (simp add: renderedIcon_claimed)
  moreover from a have "claimedIcon (btype b) (isChecked b) \<noteq> None"
    by (simp add: claimedIcon_glossary)
  ultimately show "map Some (iconsOf (drawIcon env b)) =
        (if decoration b \<noteq> None \<and> isValid (m_foregroundColor b)
         then [claimedIcon (btype b) (isChecked b)] else [])"
    using iconsOf_drawIcon [of env b] by simp
next
  assume a: "decoration b \<noteq> None \<and> btype b \<in> set glossaryTypes \<and> btype b \<noteq> Menu"
  then obtain d where d: "decoration b = Some d" by auto
  show p: "snd (paint env b) = drawIcon env (fst (paint env b))"
    using a paint_fields(1) [OF d, of env]
    by (simp add: paint_draws_resolved [OF d] paintDraw_def)
  have r: "renderedIcon (btype b) (isChecked b) = claimedIcon (btype b) (isChecked b)"
    using a by (simp add: renderedIcon_claimed)
  have n: "claimedIcon (btype b) (isChecked b) \<noteq> None"
    using a by (simp add: claimedIcon_glossary)
  show "map Some (iconsOf (snd (paint env b))) =
          (if isValid (m_foregroundColor (fst (paint env b)))
           then [claimedIcon (btype b) (isChecked b)] else [])"
    using iconsOf_drawIcon [of env "fst (paint env b)"] paint_fields [OF d, of env] r n p
    by simp
next
  assume a: "decoration b \<noteq> None \<and> btype b = Menu"
  then obtain d where d: "decoration b = Some d" by auto
  have m: "btype (fst (paint env b)) = Menu"
    using a paint_fields(1) [OF d, of env] by simp
  show "iconsOf (snd (paint env b)) = []"
    using m by (simp add: paint_draws_resolved [OF d] paintDraw_def iconsOf_append
        iconsOf_fullHeight)
  show "ClientIconPaint \<in> set (snd (paint env b))"
    using m by (simp add: paint_draws_resolved [OF d] paintDraw_def)
qed

theorem drawIcon_renders_icon_of_type_witness:
  "map Some (iconsOf (drawIcon exampleEnv (exampleButton\<lparr>m_foregroundColor := Qt_white\<rparr>)))
     = [Some CloseIcon]
   \<and> map Some (iconsOf (drawIcon exampleEnv
        (exampleButton\<lparr>btype := Maximize, isChecked := True, m_foregroundColor := Qt_white\<rparr>)))
       = [Some RestoreIcon]
   \<and> map Some (iconsOf (drawIcon exampleEnv exampleButton)) = []
   \<and> ClientIconPaint \<in> set (snd (paint exampleEnv (exampleButton\<lparr>btype := Menu\<rparr>)))"
  using drawIcon_renders_icon_of_type
          [of "exampleButton\<lparr>m_foregroundColor := Qt_white\<rparr>" exampleEnv]
        drawIcon_renders_icon_of_type
          [of "exampleButton\<lparr>btype := Maximize, isChecked := True,
                              m_foregroundColor := Qt_white\<rparr>" exampleEnv]
        drawIcon_renders_icon_of_type [of exampleButton exampleEnv]
        drawIcon_renders_icon_of_type [of "exampleButton\<lparr>btype := Menu\<rparr>" exampleEnv]
  by (simp add: exampleButton_def glossaryTypes_def Qt_white_def)

text \<open>
  C6. The shape \<^verbatim>\<open>paintSmallSizedButtonBackground\<close> paints is the one claimed for the
  button shape and the corner radius of the settings, whatever else the button holds: a
  square, a rounded square or a circle as worded in \<open>claimedShape\<close>. It is the only shape
  painted; the function paints nothing when the button has no decoration or neither the
  background nor the outline colour is valid.
\<close>

theorem small_background_shape:
  "shapesOf (paintSmallSizedButtonBackground env b) =
     (case decoration b of
        None \<Rightarrow> []
      | Some d \<Rightarrow>
          if \<not> isValid (m_backgroundColor b) \<and> \<not> isValid (m_outlineColor b) then []
          else [claimedShape (buttonShape (internalSettings d))
                             (cornerRadius (internalSettings d))])"
proof (cases "decoration b")
  case None
  then show ?thesis by (simp add: paintSmallSizedButtonBackground_def)
next
  case (Some d)
  then show ?thesis
    by (cases "buttonShape (internalSettings d)")
       (simp_all add: paintSmallSizedButtonBackground_def claimedShape_def Let_def)
qed

theorem small_background_shape_witness:
  "shapesOf (paintSmallSizedButtonBackground exampleEnv
       (exampleButton\<lparr>m_backgroundColor := Qt_white\<rparr>)) = [DrawEllipse]
   \<and> shapesOf (paintSmallSizedButtonBackground exampleEnv
       (exampleButton\<lparr>m_outlineColor := Qt_white,
          decoration := Some (exampleDecoration\<lparr>internalSettings :=
             exampleSettings\<lparr>buttonShape := ShapeIntegratedRoundedRectangle,
                              cornerRadius := 0.1\<rparr>\<rparr>)\<rparr>)) = [DrawRect]
   \<and> shapesOf (paintSmallSizedButtonBackground exampleEnv
       (exampleButton\<lparr>m_outlineColor := Qt_white,
          decoration := Some (exampleDecoration\<lparr>internalSettings :=
             exampleSettings\<lparr>buttonShape := ShapeIntegratedRoundedRectangle\<rparr>\<rparr>)\<rparr>))
       = [DrawRoundedRect]"
  using small_background_shape [of exampleEnv "exampleButton\<lparr>m_backgroundColor := Qt_white\<rparr>"]
        small_background_shape
          [of exampleEnv "exampleButton\<lparr>m_outlineColor := Qt_white,
             decoration := Some (exampleDecoration\<lparr>internalSettings :=
               exampleSettings\<lparr>buttonShape := ShapeIntegratedRoundedRectangle,
                                cornerRadius := 0.1\<rparr>\<rparr>)\<rparr>"]
        small_background_shape
          [of exampleEnv "exampleButton\<lparr>m_outlineColor := Qt_white,
             decoration := Some (exampleDecoration\<lparr>internalSettings :=
               exampleSettings\<lparr>buttonShape := ShapeIntegratedRoundedRectangle\<rparr>\<rparr>)\<rparr>"]
  by (simp add: exampleButton_def exampleDecoration_def exampleSettings_def Qt_white_def
        claimedShape_def)

text \<open>
  C4, as stated for every invocation, fails on a button without a decoration: \<^verbatim>\<open>paint\<close>
  returns at once, so a foreground colour left from an earlier paint stays in
  \<^verbatim>\<open>m_foregroundColor\<close> although \<^verbatim>\<open>foregroundColor\<close>, applied to the contrast colour of
  \<^verbatim>\<open>backgroundColor\<close>, is the invalid colour; and nothing is drawn.
\<close>

theorem paint_without_decoration_counterexample:
  "m_foregroundColor
     (fst (paint exampleEnv (exampleButton\<lparr>decoration := None, m_foregroundColor := Qt_white\<rparr>)))
     = Qt_white
   \<and> foregroundColor exampleEnv
        (exampleButton\<lparr>decoration := None, m_foregroundColor := Qt_white\<rparr>)
        (snd (backgroundColor exampleEnv
               (exampleButton\<lparr>decoration := None, m_foregroundColor := Qt_white\<rparr>)
               InvalidColor False))
       = InvalidColor
   \<and> Qt_white \<noteq> InvalidColor
   \<and> snd (paint exampleEnv (exampleButton\<lparr>decoration := None, m_foregroundColor := Qt_white\<rparr>))
       = []"
  by (simp add: paint_def foregroundColor_def backgroundColor_def exampleButton_def
        Qt_white_def)

text \<open>
  C4, amended. In every invocation of \<^verbatim>\<open>paint\<close> on a button that has a decoration, the
  colours are resolved before anything is painted, in this order: the background colour
  first; the foreground colour from the contrast colour that \<^verbatim>\<open>backgroundColor\<close> left in
  its output parameter; then the low-contrast flag from the new background colour; then
  the outline colour, which reads that flag. Only then is drawn, from these three
  colours and in this order: the full-height background, for a full-height background
  type on a button that is neither standalone nor a GTK CSD button, painted from the
  background and the outline colour; for a button other than Menu the small background
  shape, for the small background type or a standalone or GTK CSD button, with the
  background colour as brush and the outline colour as pen; and the icon of the button
  type with the foreground colour as pen, or for a Menu button the client's window icon.
  A background is drawn when the background or the outline colour is valid, the icon when
  the foreground colour is valid. Without a decoration \<^verbatim>\<open>paint\<close> returns at once: it
  resolves no colour and paints nothing.
\<close>

theorem paint_resolves_then_draws:
  "(decoration b = None \<longrightarrow> paint env b = (b, []))
 \<and> (\<forall>d. decoration b = Some d \<longrightarrow>
      m_backgroundColor (fst (paint env b)) = fst (backgroundColor env b InvalidColor False)
    \<and> m_foregroundColor (fst (paint env b))
        = foregroundColor env b (snd (backgroundColor env b InvalidColor False))
    \<and> m_lowContrastBetweenTitleBarAndBackground (fst (paint env b))
        = (backgroundColors (internalSettings d) \<noteq> ColorsTitlebarText
           \<and> contrastRatio env (m_backgroundColor (fst (paint env b))) (titleBarColor d) < 1.3)
    \<and> m_outlineColor (fst (paint env b))
        = outlineColor env
            (b\<lparr>m_lowContrastBetweenTitleBarAndBackground :=
                 m_lowContrastBetweenTitleBarAndBackground (fst (paint env b))\<rparr>) False
    \<and> snd (paint env b)
        = (let bg = m_backgroundColor (fst (paint env b));
               fg = m_foregroundColor (fst (paint env b));
               ol = m_outlineColor (fst (paint env b));
               gtk = m_isGtkCsdButton b;
               small = (isStandAlone b \<or> gtk);
               ratio = (if gtk \<or> isPlatformX11 env then systemScaleFactor d
                        else painterDevicePixelRatioF env);
               scaled = PenWidth_Symbol env * ratio;
               penWidth = (if isPlatformX11 env then PenWidth_Symbol env * ratio
                           else PenWidth_Symbol env);
               shape = claimedShape (buttonShape (internalSettings d))
                         (cornerRadius (internalSettings d));
               fullHeightBackground =
                 (if buttonBackgroundType d = FullHeight \<and> \<not> small
                     \<and> (isValid bg \<or> isValid ol)
                  then [FullHeightButtonBackground bg ol] else []);
               smallBackground =
                 (if (buttonBackgroundType d = Small \<or> small) \<and> (isValid bg \<or> isValid ol)
                  then [SmallSizedButtonBackground shape
                          (if isValid ol
                           then SolidPen \<lparr>penColor = ol,
                                          penWidthF = (if gtk then penWidth else scaled),
                                          penCosmetic = (\<not> gtk)\<rparr>
                           else NoPen)
                          (if isValid bg then SolidBrush bg else NoBrush)
                          (if isValid ol \<and> shape \<noteq> DrawEllipse then penWidth / 2 else 0)]
                  else []);
               icon =
                 (if isValid fg
                  then (case renderedIcon (btype b) (isChecked b) of
                          None \<Rightarrow> []
                        | Some k \<Rightarrow>
                            [RenderIcon k
                               \<lparr>penColor = fg,
                                penWidthF = (if gtk then PenWidth_Symbol env else scaled),
                                penCosmetic = (\<not> gtk)\<rparr>])
                  else [])
           in if btype b = Menu then fullHeightBackground @ [ClientIconPaint]
              else fullHeightBackground @ smallBackground @ icon))"
proof (intro conjI allI impI)
  assume "decoration b = None"
  then show "paint env b = (b, [])" by (simp add: paint_def)
next
  fix d assume d: "decoration b = Some d"
  show "m_backgroundColor (fst (paint env b))
          = fst (backgroundColor env b InvalidColor False)"
    by (rule paint_colors(1) [OF d])
  show "m_foregroundColor (fst (paint env b))
        = foregroundColor env b (snd (backgroundColor env b InvalidColor False))"
    by (rule paint_colors(2) [OF d])
  show "m_lowContrastBetweenTitleBarAndBackground (fst (paint env b))
        = (backgroundColors (internalSettings d) \<noteq> ColorsTitlebarText
           \<and> contrastRatio env (m_backgroundColor (fst (paint env b))) (titleBarColor d) < 1.3)"
    by (rule paint_colors(3) [OF d])
  show "m_outlineColor (fst (paint env b))
        = outlineColor env
            (b\<lparr>m_lowContrastBetweenTitleBarAndBackground :=
                 m_lowContrastBetweenTitleBarAndBackground (fst (paint env b))\<rparr>) False"
    by (rule paint_colors(4) [OF d])
  have r: "m_devicePixelRatio (fst (paint env b))
       = (if m_isGtkCsdButton b \<or> isPlatformX11 env then systemScaleFactor d
          else painterDevicePixelRatioF env)"
    by (simp add: paint_Some [OF d] resolveColors_fields paintSetup_devicePixelRatio [OF d])
  have w: "m_standardScaledPenWidth (fst (paint env b))
       = PenWidth_Symbol env * m_devicePixelRatio (fst (paint env b))"
    by (simp add: paint_Some [OF d] resolveColors_fields paintSetup_penWidth)
  show "snd (paint env b)
        = (let bg = m_backgroundColor (fst (paint env b));
               fg = m_foregroundColor (fst (paint env b));
               ol = m_outlineColor (fst (paint env b));
               gtk = m_isGtkCsdButton b;
               small = (isStandAlone b \<or> gtk);
               ratio = (if gtk \<or> isPlatformX11 env then systemScaleFactor d
                        else painterDevicePixelRatioF env);
               scaled = PenWidth_Symbol env * ratio;
               penWidth = (if isPlatformX11 env then PenWidth_Symbol env * ratio
                           else PenWidth_Symbol env);
               shape = claimedShape (buttonShape (internalSettings d))
                         (cornerRadius (internalSettings d));
               fullHeightBackground =
                 (if buttonBackgroundType d = FullHeight \<and> \<not> small
                     \<and> (isValid bg \<or> isValid ol)
                  then [FullHeightButtonBackground bg ol] else []);
               smallBackground =
                 (if (buttonBackgroundType d = Small \<or> small) \<and> (isValid bg \<or> isValid ol)
                  then [SmallSizedButtonBackground shape
                          (if isValid ol
                           then SolidPen \<lparr>penColor = ol,
                                          penWidthF = (if gtk then penWidth else scaled),
                                          penCosmetic = (\<not> gtk)\<rparr>
                           else NoPen)
                          (if isValid bg then SolidBrush bg else NoBrush)
                          (if isValid ol \<and> shape \<noteq> DrawEllipse then penWidth / 2 else 0)]
                  else []);
               icon =
                 (if isValid fg
                  then (case renderedIcon (btype b) (isChecked b) of
                          None \<Rightarrow> []
                        | Some k \<Rightarrow>
                            [RenderIcon k
                               \<lparr>penColor = fg,
                                penWidthF = (if gtk then PenWidth_Symbol env else scaled),
                                penCosmetic = (\<not> gtk)\<rparr>])
                  else [])
           in if btype b = Menu then fullHeightBackground @ [ClientIconPaint]
              else fullHeightBackground @ smallBackground @ icon)"
    by (cases "buttonShape (internalSettings d)";
        cases "renderedIcon (btype b) (isChecked b)")
       (simp_all add: paint_draws_resolved [OF d] paintDraw_def drawIcon_def
          paintFullHeightButtonBackground_def paintSmallSizedButtonBackground_def
          iconPen_def claimedShape_def Let_def paint_fields [OF d] w r)
qed

theorem paint_resolves_then_draws_witness:
  "paint exampleEnv (exampleButton\<lparr>decoration := None\<rparr>)
     = (exampleButton\<lparr>decoration := None\<rparr>, [])
   \<and> m_backgroundColor (fst (paint exampleEnv exampleButton)) = Rgba 0.2 0.5 0.9 0.3
   \<and> m_foregroundColor (fst (paint exampleEnv exampleButton)) = Rgba 0.9 0.9 0.9 1
   \<and> m_outlineColor (fst (paint exampleEnv exampleButton)) = InvalidColor
   \<and> snd (paint exampleEnv exampleButton)
       = [SmallSizedButtonBackground DrawEllipse NoPen (SolidBrush (Rgba 0.2 0.5 0.9 0.3)) 0,
          RenderIcon CloseIcon
            \<lparr>penColor = Rgba 0.9 0.9 0.9 1, penWidthF = 2.02, penCosmetic = True\<rparr>]"
  using paint_resolves_then_draws [of "exampleButton\<lparr>decoration := None\<rparr>" exampleEnv]
        paint_resolves_then_draws [of exampleButton exampleEnv]
  by (simp add: exampleButton_def exampleDecoration_def exampleSettings_def
        exampleParameters_def exampleEnv_def exampleColors_def exampleAnimation_def
        backgroundColor_def backgroundSelect_def backgroundPalette_def colorIf_def
        analyseContrastWithForeground_def foregroundColor_def foregroundColorState_def
        foregroundPalette_def fontColorContrastBoosted_def outlineColor_def
        outlineSelect_def outlinePaletteCorrected_def outlinePalette_def outlineFlags_def
        outlineContrastCorrect_def exampleContrastRatio_def exampleLuma_def Let_def
        claimedShape_def renderedIcon_def)

text \<open>
  C7, as stated, fails on a GTK CSD button: a button constructed in the application kded5
  and painted at a device pixel ratio of 2 renders its icon with a pen that is not cosmetic
  and has the width \<^verbatim>\<open>PenWidth::Symbol\<close>, not that width times the device pixel ratio.
\<close>

theorem gtk_icon_pen_counterexample:
  "m_isGtkCsdButton
     (Button_ctor (exampleEnv\<lparr>applicationName := ''kded5''\<rparr>) Close exampleDecoration
        exampleButton)
   \<and> iconPensOf (snd (paint (exampleEnv\<lparr>applicationName := ''kded5''\<rparr>)
        (Button_ctor (exampleEnv\<lparr>applicationName := ''kded5''\<rparr>) Close exampleDecoration
           exampleButton)))
     = [\<lparr>penColor = Rgba 0.9 0.9 0.9 1, penWidthF = 1.01, penCosmetic = False\<rparr>]
   \<and> m_standardScaledPenWidth (fst (paint (exampleEnv\<lparr>applicationName := ''kded5''\<rparr>)
        (Button_ctor (exampleEnv\<lparr>applicationName := ''kded5''\<rparr>) Close exampleDecoration
           exampleButton))) = 2.02"
  by (simp add: exampleButton_def exampleDecoration_def exampleSettings_def
        exampleParameters_def exampleEnv_def exampleColors_def exampleAnimation_def
        Button_ctor_def reconfigure_def paint_def paintSetup_def resolveColors_def
        paintDraw_def drawIcon_def iconPen_def renderedIcon_def
        paintSmallSizedButtonBackground_def setDevicePixelRatio_def
        setStandardScaledPenWidth_def setShouldDrawBoldButtonIcons_def
        backgroundColor_def backgroundSelect_def backgroundPalette_def colorIf_def
        analyseContrastWithForeground_def foregroundColor_def foregroundColorState_def
        foregroundPalette_def fontColorContrastBoosted_def outlineColor_def
        outlineSelect_def outlinePaletteCorrected_def outlinePalette_def outlineFlags_def
        outlineContrastCorrect_def exampleContrastRatio_def exampleLuma_def Let_def)

text \<open>
  C7, amended. For every button with a decoration, \<^verbatim>\<open>paint\<close> sets the standard scaled pen
  width to \<^verbatim>\<open>PenWidth::Symbol\<close> times the device pixel ratio, which is the system scale
  factor on X11 and for GTK CSD buttons and the ratio of the paint device otherwise. The
  icon pen has the resolved foreground colour; for a button that is not a GTK CSD button it
  is cosmetic with the standard scaled pen width, and for a GTK CSD button it is not
  cosmetic and has the width \<^verbatim>\<open>PenWidth::Symbol\<close>.
\<close>

theorem icon_pen_width:
  "decoration b = Some d \<Longrightarrow>
     m_devicePixelRatio (fst (paint env b))
       = (if m_isGtkCsdButton b \<or> isPlatformX11 env then systemScaleFactor d
          else painterDevicePixelRatioF env)
   \<and> m_standardScaledPenWidth (fst (paint env b))
       = PenWidth_Symbol env * m_devicePixelRatio (fst (paint env b))
   \<and> (\<forall>pen \<in> set (iconPensOf (snd (paint env b))).
         penColor pen = m_foregroundColor (fst (paint env b))
         \<and> (if m_isGtkCsdButton b
            then \<not> penCosmetic pen \<and> penWidthF pen = PenWidth_Symbol env
            else penCosmetic pen
                 \<and> penWidthF pen = PenWidth_Symbol env * m_devicePixelRatio (fst (paint env b))))"
proof -
  assume d: "decoration b = Some d"
  have r: "m_devicePixelRatio (fst (paint env b))
       = (if m_isGtkCsdButton b \<or> isPlatformX11 env then systemScaleFactor d
          else painterDevicePixelRatioF env)"
    by (simp add: paint_Some [OF d] resolveColors_fields paintSetup_devicePixelRatio [OF d])
  have w: "m_standardScaledPenWidth (fst (paint env b))
       = PenWidth_Symbol env * m_devicePixelRatio (fst (paint env b))"
    by (simp add: paint_Some [OF d] resolveColors_fields paintSetup_penWidth)
  have "iconPensOf (paintDraw env d (fst (paint env b)))
          = [] \<or> iconPensOf (paintDraw env d (fst (paint env b)))
          = [iconPen env (fst (paint env b))]"
    by (simp add: paintDraw_def iconPensOf_append iconPensOf_fullHeight iconPensOf_drawIcon)
  then have "\<forall>pen \<in> set (iconPensOf (snd (paint env b))).
               pen = iconPen env (fst (paint env b))"
    by (auto simp add: paint_draws_resolved [OF d])
  then have "\<forall>pen \<in> set (iconPensOf (snd (paint env b))).
         penColor pen = m_foregroundColor (fst (paint env b))
         \<and> (if m_isGtkCsdButton b
            then \<not> penCosmetic pen \<and> penWidthF pen = PenWidth_Symbol env
            else penCosmetic pen
                 \<and> penWidthF pen = PenWidth_Symbol env * m_devicePixelRatio (fst (paint env b)))"
    using w paint_fields(4) [OF d, of env] by (auto simp add: iconPen_def)
  with r w show ?thesis by blast
qed

theorem icon_pen_width_witness:
  "decoration exampleButton = Some exampleDecoration
   \<and> m_standardScaledPenWidth (fst (paint exampleEnv exampleButton)) = 2.02
   \<and> iconPensOf (snd (paint exampleEnv exampleButton))
       = [\<lparr>penColor = Rgba 0.9 0.9 0.9 1, penWidthF = 2.02, penCosmetic = True\<rparr>]"
proof -
  have d: "decoration exampleButton = Some exampleDecoration"
    by (simp add: exampleButton_def)
  have e: "iconPensOf (snd (paint exampleEnv exampleButton))
       = [\<lparr>penColor = Rgba 0.9 0.9 0.9 1, penWidthF = 2.02, penCosmetic = True\<rparr>]"
    by (simp add: exampleButton_def exampleDecoration_def exampleSettings_def
        exampleParameters_def exampleEnv_def exampleColors_def exampleAnimation_def
        paint_def paintSetup_def resolveColors_def
        paintDraw_def drawIcon_def iconPen_def renderedIcon_def
        paintSmallSizedButtonBackground_def setDevicePixelRatio_def
        setStandardScaledPenWidth_def setShouldDrawBoldButtonIcons_def
        backgroundColor_def backgroundSelect_def backgroundPalette_def colorIf_def
        analyseContrastWithForeground_def foregroundColor_def foregroundColorState_def
        foregroundPalette_def fontColorContrastBoosted_def outlineColor_def
        outlineSelect_def outlinePaletteCorrected_def outlinePalette_def outlineFlags_def
        outlineContrastCorrect_def exampleContrastRatio_def exampleLuma_def Let_def)
  have g: "\<not> m_isGtkCsdButton exampleButton" "\<not> isPlatformX11 exampleEnv"
    "painterDevicePixelRatioF exampleEnv = 2" "PenWidth_Symbol exampleEnv = 1.01"
    by (simp_all add: exampleButton_def exampleEnv_def)
  from icon_pen_width [OF d, of exampleEnv] d e g show ?thesis by simp
qed

text \<open>
  C1, as stated, fails: two buttons that agree on the button type, on hovered, pressed and
  checked, and on the decoration with all its settings, but of which only the second has
  its animation running, get different background colours (the first its normal colour,
  the second the invalid colour, its hover background being switched off).
\<close>

theorem resolver_hidden_state_counterexample:
  "btype (exampleButton\<lparr>decoration := Some (exampleDecoration\<lparr>m_buttonBehaviouralParameters :=
            exampleParameters\<lparr>drawCloseBackgroundOnHover := False\<rparr>\<rparr>)\<rparr>)
     = btype (exampleButton\<lparr>decoration := Some (exampleDecoration\<lparr>m_buttonBehaviouralParameters :=
            exampleParameters\<lparr>drawCloseBackgroundOnHover := False\<rparr>\<rparr>),
          m_animation := exampleAnimation\<lparr>animState := Running\<rparr>\<rparr>)
   \<and> isHovered (exampleButton\<lparr>decoration := Some (exampleDecoration\<lparr>m_buttonBehaviouralParameters :=
            exampleParameters\<lparr>drawCloseBackgroundOnHover := False\<rparr>\<rparr>)\<rparr>)
     = isHovered (exampleButton\<lparr>decoration := Some (exampleDecoration\<lparr>m_buttonBehaviouralParameters :=
            exampleParameters\<lparr>drawCloseBackgroundOnHover := False\<rparr>\<rparr>),
          m_animation := exampleAnimation\<lparr>animState := Running\<rparr>\<rparr>)
   \<and> isPressed (exampleButton\<lparr>decoration := Some (exampleDecoration\<lparr>m_buttonBehaviouralParameters :=
            exampleParameters\<lparr>drawCloseBackgroundOnHover := False\<rparr>\<rparr>)\<rparr>)
     = isPressed (exampleButton\<lparr>decoration := Some (exampleDecoration\<lparr>m_buttonBehaviouralParameters :=
            exampleParameters\<lparr>drawCloseBackgroundOnHover := False\<rparr>\<rparr>),
          m_animation := exampleAnimation\<lparr>animState := Running\<rparr>\<rparr>)
   \<and> isChecked (exampleButton\<lparr>decoration := Some (exampleDecoration\<lparr>m_buttonBehaviouralParameters :=
            exampleParameters\<lparr>drawCloseBackgroundOnHover := False\<rparr>\<rparr>)\<rparr>)
     = isChecked (exampleButton\<lparr>decoration := Some (exampleDecoration\<lparr>m_buttonBehaviouralParameters :=
            exampleParameters\<lparr>drawCloseBackgroundOnHover := False\<rparr>\<rparr>),
          m_animation := exampleAnimation\<lparr>animState := Running\<rparr>\<rparr>)
   \<and> decoration (exampleButton\<lparr>decoration := Some (exampleDecoration\<lparr>m_buttonBehaviouralParameters :=
            exampleParameters\<lparr>drawCloseBackgroundOnHover := False\<rparr>\<rparr>)\<rparr>)
     = decoration (exampleButton\<lparr>decoration := Some (exampleDecoration\<lparr>m_buttonBehaviouralParameters :=
            exampleParameters\<lparr>drawCloseBackgroundOnHover := False\<rparr>\<rparr>),
          m_animation := exampleAnimation\<lparr>animState := Running\<rparr>\<rparr>)
   \<and> fst (backgroundColor exampleEnv
        (exampleButton\<lparr>decoration := Some (exampleDecoration\<lparr>m_buttonBehaviouralParameters :=
            exampleParameters\<lparr>drawCloseBackgroundOnHover := False\<rparr>\<rparr>)\<rparr>) InvalidColor False)
     = Rgba 0.2 0.5 0.9 0.3
   \<and> fst (backgroundColor exampleEnv
        (exampleButton\<lparr>decoration := Some (exampleDecoration\<lparr>m_buttonBehaviouralParameters :=
            exampleParameters\<lparr>drawCloseBackgroundOnHover := False\<rparr>\<rparr>),
          m_animation := exampleAnimation\<lparr>animState := Running\<rparr>\<rparr>) InvalidColor False)
     = InvalidColor"
  by (simp add: exampleButton_def exampleDecoration_def exampleSettings_def
        exampleParameters_def exampleEnv_def exampleColors_def exampleAnimation_def
        backgroundColor_def backgroundSelect_def backgroundPalette_def colorIf_def
        analyseContrastWithForeground_def Let_def)

text \<open>
  C1, amended. The three colours are functions of the button type, of hovered, pressed and
  checked, of the decoration (settings, behavioural parameters, title-bar and font
  colour), of the arguments, and of the animation: of whether it is running and, only
  while it runs, of \<^verbatim>\<open>m_opacity\<close> and the cached pre-animation colours. \<^verbatim>\<open>outlineColor\<close> reads
  in addition the cached low-contrast flag, which \<^verbatim>\<open>paint\<close> sets from the background
  colour before it calls it. So two buttons that agree on type, interaction state,
  decoration and animation state, and while the animation runs on opacity and cached
  colours, get the same colours from the three functions and, when they have a
  decoration, from \<^verbatim>\<open>paint\<close>.
\<close>

theorem resolver_inputs:
  assumes "btype b1 = btype b2" and "decoration b1 = decoration b2"
    and "isHovered b1 = isHovered b2" and "isPressed b1 = isPressed b2"
    and "isChecked b1 = isChecked b2"
    and "animState (m_animation b1) = animState (m_animation b2)"
    and "animState (m_animation b1) = Running \<longrightarrow>
           m_opacity b1 = m_opacity b2
         \<and> m_preAnimationBackgroundColor b1 = m_preAnimationBackgroundColor b2
         \<and> m_preAnimationForegroundColor b1 = m_preAnimationForegroundColor b2
         \<and> m_preAnimationOutlineColor b1 = m_preAnimationOutlineColor b2"
  shows "backgroundColor env b1 x g = backgroundColor env b2 x g
       \<and> foregroundColor env b1 c = foregroundColor env b2 c
       \<and> (m_lowContrastBetweenTitleBarAndBackground b1
            = m_lowContrastBetweenTitleBarAndBackground b2
          \<longrightarrow> outlineColor env b1 g = outlineColor env b2 g)
       \<and> (decoration b1 \<noteq> None \<longrightarrow>
            m_backgroundColor (fst (paint env b1)) = m_backgroundColor (fst (paint env b2))
          \<and> m_foregroundColor (fst (paint env b1)) = m_foregroundColor (fst (paint env b2))
          \<and> m_outlineColor (fst (paint env b1)) = m_outlineColor (fst (paint env b2)))"
proof -
  have bg: "\<And>x g. backgroundColor env b1 x g = backgroundColor env b2 x g"
    using assms by (intro backgroundColor_cong) auto
  have fg: "\<And>c. foregroundColor env b1 c = foregroundColor env b2 c"
    using assms by (intro foregroundColor_cong) auto
  have ol: "\<And>L g. outlineColor env (b1\<lparr>m_lowContrastBetweenTitleBarAndBackground := L\<rparr>) g
                 = outlineColor env (b2\<lparr>m_lowContrastBetweenTitleBarAndBackground := L\<rparr>) g"
    using assms by (intro outlineColor_cong) auto
  have ol': "m_lowContrastBetweenTitleBarAndBackground b1
            = m_lowContrastBetweenTitleBarAndBackground b2
          \<longrightarrow> outlineColor env b1 g = outlineColor env b2 g"
    using assms by (intro impI outlineColor_cong) auto
  have p: "decoration b1 \<noteq> None \<longrightarrow>
            m_backgroundColor (fst (paint env b1)) = m_backgroundColor (fst (paint env b2))
          \<and> m_foregroundColor (fst (paint env b1)) = m_foregroundColor (fst (paint env b2))
          \<and> m_outlineColor (fst (paint env b1)) = m_outlineColor (fst (paint env b2))"
  proof (cases "decoration b2")
    case None
    then show ?thesis using assms(2) by simp
  next
    case (Some d)
    then have d1: "decoration b1 = Some d" using assms(2) by simp
    have b: "m_backgroundColor (fst (paint env b1)) = m_backgroundColor (fst (paint env b2))"
      by (simp add: paint_colors(1) [OF d1] paint_colors(1) [OF Some] bg)
    have l: "m_lowContrastBetweenTitleBarAndBackground (fst (paint env b1))
           = m_lowContrastBetweenTitleBarAndBackground (fst (paint env b2))"
      by (simp add: paint_colors(3) [OF d1] paint_colors(3) [OF Some] b)
    show ?thesis
      using b l
      by (simp add: paint_colors(2) [OF d1] paint_colors(2) [OF Some] bg fg
                    paint_colors(4) [OF d1] paint_colors(4) [OF Some] ol)
  qed
  from bg fg ol' p show ?thesis by simp
qed

theorem resolver_inputs_witness:
  "backgroundColor exampleEnv
      (exampleButton\<lparr>m_opacity := 0.7, m_preAnimationBackgroundColor := Qt_white,
         m_lowContrastBetweenTitleBarAndBackground := True\<rparr>) InvalidColor False
     = backgroundColor exampleEnv exampleButton InvalidColor False
   \<and> foregroundColor exampleEnv
      (exampleButton\<lparr>m_opacity := 0.7, m_preAnimationBackgroundColor := Qt_white,
         m_lowContrastBetweenTitleBarAndBackground := True\<rparr>) InvalidColor
     = foregroundColor exampleEnv exampleButton InvalidColor
   \<and> m_outlineColor (fst (paint exampleEnv
      (exampleButton\<lparr>m_opacity := 0.7, m_preAnimationBackgroundColor := Qt_white,
         m_lowContrastBetweenTitleBarAndBackground := True\<rparr>)))
     = m_outlineColor (fst (paint exampleEnv exampleButton))"
  using resolver_inputs
          [of "exampleButton\<lparr>m_opacity := 0.7, m_preAnimationBackgroundColor := Qt_white,
                 m_lowContrastBetweenTitleBarAndBackground := True\<rparr>" exampleButton
              exampleEnv InvalidColor False InvalidColor]
  by (simp add: exampleButton_def exampleAnimation_def)

text \<open>
  C2, as stated, fails twice. The animation the constructor sets up does not advance
  linearly: at a quarter of its duration (50 of 200 ms) the opacity is 1/8, not 1/4. And a
  running animation does not make the colour the interpolation: a button pressed while
  its animation runs (here at opacity 0) has its focus background colour, not the mix of
  the cached colour and the hover colour at that opacity.
\<close>

theorem animation_not_linear_counterexample:
  "easingCurve (m_animation (Button_ctor exampleEnv Close exampleDecoration exampleButton))
     = InOutQuad
   \<and> duration (m_animation (Button_ctor exampleEnv Close exampleDecoration exampleButton))
     = 200
   \<and> m_opacity (animationAt (Button_ctor exampleEnv Close exampleDecoration exampleButton) 50)
     = 1 / 8
   \<and> m_opacity (animationAt (Button_ctor exampleEnv Close exampleDecoration exampleButton) 50)
     \<noteq> 50 / 200
   \<and> fst (backgroundColor exampleEnv
        (exampleButton\<lparr>isPressed := True,
           m_animation := exampleAnimation\<lparr>animState := Running\<rparr>,
           m_preAnimationBackgroundColor := Rgba 0.2 0.5 0.9 0.3\<rparr>) InvalidColor False)
     = Rgba 1 0 0 1
   \<and> mix exampleEnv (Rgba 0.2 0.5 0.9 0.3)
        (hoverOf (backgroundPalette exampleEnv exampleDecoration Close)) 0
     = Rgba 0.2 0.5 0.9 0.3"
  by (simp add: exampleButton_def exampleDecoration_def exampleSettings_def
        exampleParameters_def exampleEnv_def exampleColors_def exampleAnimation_def
        Button_ctor_def reconfigure_def animationAt_def currentValue_def
        valueForProgress_def exampleMix_def hoverOf_def
        backgroundColor_def backgroundSelect_def backgroundPalette_def colorIf_def
        analyseContrastWithForeground_def Let_def)

text \<open>
  C2, amended. While the animation is running and the button is neither pressed nor a
  checked KeepBelow, KeepAbove, Shade or OnAllDesktops button, the background colour and
  the outline colour that \<^verbatim>\<open>paint\<close> asks for are: the mix of the cached pre-animation
  colour and the hover colour at \<^verbatim>\<open>m_opacity\<close> when both are valid; the hover colour
  alpha-mixed at \<^verbatim>\<open>m_opacity\<close> when only the hover colour is valid; the invalid colour
  when the hover colour is invalid. The foreground colour, when \<^verbatim>\<open>drawIconOnHover\<close> is
  set, is the mix of the cached colour and the hover foreground at \<^verbatim>\<open>m_opacity\<close> if the
  cached colour is valid and the alpha-mixed hover foreground otherwise. \<^verbatim>\<open>m_opacity\<close> is
  the value of an animation that the constructor sets up from 0.0 to 1.0 with the
  InOutQuad easing curve over the decoration's animation duration: 0 at the start, 1 at
  the end, and the eased, not the linear, fraction in between.
\<close>

theorem animated_colors:
  assumes "decoration b = Some d"
    and "animState (m_animation b) = Running"
    and "\<not> isPressed b"
    and "\<not> (isChecked b \<and> (btype b = KeepBelow \<or> btype b = KeepAbove \<or> btype b = Shade
                            \<or> btype b = OnAllDesktops))"
  shows "fst (backgroundColor env b x False)
           = animatedColor env (m_preAnimationBackgroundColor b)
               (hoverOf (backgroundPalette env d (btype b))) (m_opacity b)
       \<and> outlineColor env b False
           = animatedColor env (m_preAnimationOutlineColor b)
               (hoverOf (outlinePaletteCorrected env d (btype b)
                  (outlineFlags d (m_lowContrastBetweenTitleBarAndBackground b))))
               (m_opacity b)
       \<and> (drawIconOnHover (m_buttonBehaviouralParameters d) \<longrightarrow>
            foregroundColor env b c
              = (if isValid (m_preAnimationForegroundColor b)
                 then mix env (m_preAnimationForegroundColor b)
                        (hoverOf (foregroundPalette env d (btype b) c)) (m_opacity b)
                 else alphaMix env (hoverOf (foregroundPalette env d (btype b) c))
                        (m_opacity b)))
       \<and> startValue (m_animation (Button_ctor env t d b0)) = 0
       \<and> endValue (m_animation (Button_ctor env t d b0)) = 1
       \<and> easingCurve (m_animation (Button_ctor env t d b0)) = InOutQuad
       \<and> duration (m_animation (Button_ctor env t d b0)) = animationsDuration d
       \<and> (animationsDuration d > 0 \<longrightarrow>
            m_opacity (animationAt (Button_ctor env t d b0) 0) = 0
          \<and> m_opacity (animationAt (Button_ctor env t d b0) (animationsDuration d)) = 1
          \<and> m_opacity (animationAt (Button_ctor env t d b0) time)
              = valueForProgress InOutQuad
                  (real_of_int time / real_of_int (animationsDuration d)))"
proof -
  have bg: "fst (backgroundColor env b x False)
           = animatedColor env (m_preAnimationBackgroundColor b)
               (hoverOf (backgroundPalette env d (btype b))) (m_opacity b)"
    using assms
    by (cases "backgroundPalette env d (btype b)")
       (auto simp add: backgroundColor_def backgroundSelect_def animatedColor_def hoverOf_def)
  have ol: "outlineColor env b False
           = animatedColor env (m_preAnimationOutlineColor b)
               (hoverOf (outlinePaletteCorrected env d (btype b)
                  (outlineFlags d (m_lowContrastBetweenTitleBarAndBackground b))))
               (m_opacity b)"
    using assms
    by (cases "outlinePaletteCorrected env d (btype b)
                  (outlineFlags d (m_lowContrastBetweenTitleBarAndBackground b))")
       (auto simp add: outlineColor_def outlineSelect_def animatedColor_def hoverOf_def)
  have fg: "drawIconOnHover (m_buttonBehaviouralParameters d) \<longrightarrow>
            foregroundColor env b c
              = (if isValid (m_preAnimationForegroundColor b)
                 then mix env (m_preAnimationForegroundColor b)
                        (hoverOf (foregroundPalette env d (btype b) c)) (m_opacity b)
                 else alphaMix env (hoverOf (foregroundPalette env d (btype b) c))
                        (m_opacity b))"
  proof
    assume h: "drawIconOnHover (m_buttonBehaviouralParameters d)"
    have "foregroundColorState d b = ForegroundColorState_animatedHover"
      using assms h by (auto simp add: foregroundColorState_def Let_def)
    then show "foregroundColor env b c
              = (if isValid (m_preAnimationForegroundColor b)
                 then mix env (m_preAnimationForegroundColor b)
                        (hoverOf (foregroundPalette env d (btype b) c)) (m_opacity b)
                 else alphaMix env (hoverOf (foregroundPalette env d (btype b) c))
                        (m_opacity b))"
      using assms(1)
      by (cases "foregroundPalette env d (btype b) c")
         (simp add: foregroundColor_def hoverOf_def)
  qed
  have an: "startValue (m_animation (Button_ctor env t d b0)) = 0
       \<and> endValue (m_animation (Button_ctor env t d b0)) = 1
       \<and> easingCurve (m_animation (Button_ctor env t d b0)) = InOutQuad
       \<and> duration (m_animation (Button_ctor env t d b0)) = animationsDuration d"
    by (simp add: Button_ctor_def reconfigure_def)
  have op: "animationsDuration d > 0 \<longrightarrow>
            m_opacity (animationAt (Button_ctor env t d b0) 0) = 0
          \<and> m_opacity (animationAt (Button_ctor env t d b0) (animationsDuration d)) = 1
          \<and> m_opacity (animationAt (Button_ctor env t d b0) time)
              = valueForProgress InOutQuad
                  (real_of_int time / real_of_int (animationsDuration d))"
    by (simp add: Button_ctor_def reconfigure_def animationAt_def currentValue_def
        valueForProgress_def)
  from bg ol fg an op show ?thesis by simp
qed

theorem animated_colors_witness:
  "animState (m_animation (exampleButton\<lparr>isHovered := True, m_opacity := 1 / 8,
        m_animation := exampleAnimation\<lparr>animState := Running, currentTime := 50\<rparr>,
        m_preAnimationBackgroundColor := Rgba 0.2 0.5 0.9 0.3,
        m_preAnimationForegroundColor := Rgba 0.9 0.9 0.9 1\<rparr>)) = Running
   \<and> fst (backgroundColor exampleEnv
        (exampleButton\<lparr>isHovered := True, m_opacity := 1 / 8,
           m_animation := exampleAnimation\<lparr>animState := Running, currentTime := 50\<rparr>,
           m_preAnimationBackgroundColor := Rgba 0.2 0.5 0.9 0.3,
           m_preAnimationForegroundColor := Rgba 0.9 0.9 0.9 1\<rparr>) InvalidColor False)
     = exampleMix (Rgba 0.2 0.5 0.9 0.3) (Rgba 0.8 0.2 0.2 0.6) (1 / 8)
   \<and> outlineColor exampleEnv
        (exampleButton\<lparr>isHovered := True, m_opacity := 1 / 8,
           m_animation := exampleAnimation\<lparr>animState := Running, currentTime := 50\<rparr>,
           m_preAnimationBackgroundColor := Rgba 0.2 0.5 0.9 0.3,
           m_preAnimationForegroundColor := Rgba 0.9 0.9 0.9 1\<rparr>) False
     = InvalidColor
   \<and> foregroundColor exampleEnv
        (exampleButton\<lparr>isHovered := True, m_opacity := 1 / 8,
           m_animation := exampleAnimation\<lparr>animState := Running, currentTime := 50\<rparr>,
           m_preAnimationBackgroundColor := Rgba 0.2 0.5 0.9 0.3,
           m_preAnimationForegroundColor := Rgba 0.9 0.9 0.9 1\<rparr>) InvalidColor
     = exampleMix (Rgba 0.9 0.9 0.9 1) Qt_white (1 / 8)
   \<and> m_opacity (animationAt (Button_ctor exampleEnv Close exampleDecoration exampleButton) 0)
     = 0
   \<and> m_opacity (animationAt (Button_ctor exampleEnv Close exampleDecoration exampleButton) 200)
     = 1"
  using animated_colors
          [of "exampleButton\<lparr>isHovered := True, m_opacity := 1 / 8,
                 m_animation := exampleAnimation\<lparr>animState := Running, currentTime := 50\<rparr>,
                 m_preAnimationBackgroundColor := Rgba 0.2 0.5 0.9 0.3,
                 m_preAnimationForegroundColor := Rgba 0.9 0.9 0.9 1\<rparr>"
              exampleDecoration exampleEnv InvalidColor InvalidColor Close exampleButton 0]
  by (simp add: exampleButton_def exampleDecoration_def exampleSettings_def
        exampleParameters_def exampleEnv_def exampleColors_def exampleAnimation_def
        animatedColor_def hoverOf_def
        backgroundPalette_def colorIf_def foregroundPalette_def fontColorContrastBoosted_def
        outlinePaletteCorrected_def outlinePalette_def outlineFlags_def
        outlineContrastCorrect_def Let_def)

subsection \<open>An outline wherever a background, under low contrast\<close>

lemma isAccent_cases:
  "backgroundColors s \<noteq> ColorsTitlebarText \<Longrightarrow>
   backgroundColors s = ColorsAccent \<or> backgroundColors s = ColorsAccentWithTrafficLights"
  by (cases "backgroundColors s") simp_all

lemma outlineFlags_low:
  "outlineFlags d True = outlineOrBackgroundFlags (m_buttonBehaviouralParameters d)"
  by (simp add: outlineFlags_def outlineOrBackgroundFlags_def Let_def)

lemma outlineContrastCorrect_valid:
  "validityPreserving env \<Longrightarrow> isValid col \<Longrightarrow> isValid (outlineContrastCorrect env d col)"
  by (simp add: validityPreserving_def outlineContrastCorrect_def)

lemma accent_palette_valid:
  assumes v: "validityPreserving env"
    and a: "backgroundColors (internalSettings d) = ColorsAccent
            \<or> backgroundColors (internalSettings d) = ColorsAccentWithTrafficLights"
    and bp: "backgroundPalette env d t = (bn, bh, bf)"
    and op: "outlinePalette env d t (outlineOrBackgroundFlags (m_buttonBehaviouralParameters d))
               = (ol_n, ol_h, ol_f)"
  shows "(isValid bn \<longrightarrow> isValid ol_n) \<and> (isValid bh \<longrightarrow> isValid ol_h)
         \<and> (isValid bf \<longrightarrow> isValid ol_f)"
  using assms
  apply (simp add: backgroundPalette_def outlinePalette_def outlineOrBackgroundFlags_def
      Let_def validityPreserving_def cacheValid_def colorIf_def
      split: if_splits)
  apply auto
  done

lemma select_valid:
  assumes v: "validityPreserving env"
    and n: "isValid bn \<longrightarrow> isValid ol_n"
    and h: "isValid bh \<longrightarrow> isValid ol_h"
    and f: "isValid bf \<longrightarrow> isValid ol_f"
    and bg: "isValid (fst (backgroundSelect env d b g (bn, bh, bf)))"
    and a: "backgroundColors (internalSettings d) = ColorsAccent
            \<or> backgroundColors (internalSettings d) = ColorsAccentWithTrafficLights"
  shows "isValid (outlineSelect env d b g (ol_n, ol_h, ol_f))"
proof -
  have m: "\<And>c1 c2 t. isValid c1 \<Longrightarrow> isValid c2 \<Longrightarrow> isValid (mix env c1 c2 t)"
    and am: "\<And>c t. isValid c \<Longrightarrow> isValid (alphaMix env c t)"
    using v by (simp_all add: validityPreserving_def)
  show ?thesis
    using n h f bg a
    by (auto simp add: backgroundSelect_def outlineSelect_def Let_def m am
             split: if_splits)
qed

lemma exampleMix_valid:
  "isValid c1 \<and> isValid c2 \<longrightarrow> isValid (exampleMix c1 c2 t)"
  "0 < t \<and> t < 1 \<longrightarrow> isValid (exampleMix c1 c2 t)"
  by (auto simp add: exampleMix_def Let_def split: prod.splits)

lemma exampleAlphaMix_valid: "isValid c \<longrightarrow> isValid (exampleAlphaMix c t)"
  by (cases c) simp_all

lemma exampleEnv_validityPreserving: "validityPreserving exampleEnv"
  by (simp add: validityPreserving_def cacheValid_def exampleEnv_def exampleColors_def
      exampleMix_valid exampleAlphaMix_valid)

subsection \<open>The outline flags under low contrast\<close>

text \<open>
  C9. When the background-colours setting is not \<^verbatim>\<open>ColorsTitlebarText\<close> and the contrast
  ratio between the background colour that \<^verbatim>\<open>paint\<close> resolved and the title-bar colour is
  below 1.3, \<^verbatim>\<open>paint\<close> sets the low-contrast flag, and each of the six flags that
  \<^verbatim>\<open>outlineColor\<close> then works with is the configured outline flag or the corresponding
  background flag; the outline colour of \<^verbatim>\<open>paint\<close> is the one selected from the palette
  built with these flags. So, with valid cached colours and colour functions that keep
  validity, the outline colour is valid whenever the background colour is.
\<close>

theorem low_contrast_outline_flags:
  assumes d: "decoration b = Some d"
    and nt: "backgroundColors (internalSettings d) \<noteq> ColorsTitlebarText"
    and cr: "contrastRatio env (m_backgroundColor (fst (paint env b))) (titleBarColor d) < 1.3"
  shows "m_lowContrastBetweenTitleBarAndBackground (fst (paint env b))
   \<and> effDrawOutlineAlways
        (outlineFlags d (m_lowContrastBetweenTitleBarAndBackground (fst (paint env b))))
       = (drawOutlineAlways (m_buttonBehaviouralParameters d)
          \<or> drawBackgroundAlways (m_buttonBehaviouralParameters d))
   \<and> effDrawOutlineOnHover
        (outlineFlags d (m_lowContrastBetweenTitleBarAndBackground (fst (paint env b))))
       = (drawOutlineOnHover (m_buttonBehaviouralParameters d)
          \<or> drawBackgroundOnHover (m_buttonBehaviouralParameters d))
   \<and> effDrawOutlineOnFocus
        (outlineFlags d (m_lowContrastBetweenTitleBarAndBackground (fst (paint env b))))
       = (drawOutlineOnFocus (m_buttonBehaviouralParameters d)
          \<or> drawBackgroundOnFocus (m_buttonBehaviouralParameters d))
   \<and> effDrawCloseOutlineAlways
        (outlineFlags d (m_lowContrastBetweenTitleBarAndBackground (fst (paint env b))))
       = (drawCloseOutlineAlways (m_buttonBehaviouralParameters d)
          \<or> drawCloseBackgroundAlways (m_buttonBehaviouralParameters d))
   \<and> effDrawCloseOutlineOnHover
        (outlineFlags d (m_lowContrastBetweenTitleBarAndBackground (fst (paint env b))))
       = (drawCloseOutlineOnHover (m_buttonBehaviouralParameters d)
          \<or> drawCloseBackgroundOnHover (m_buttonBehaviouralParameters d))
   \<and> effDrawCloseOutlineOnFocus
        (outlineFlags d (m_lowContrastBetweenTitleBarAndBackground (fst (paint env b))))
       = (drawCloseOutlineOnFocus (m_buttonBehaviouralParameters d)
          \<or> drawCloseBackgroundOnFocus (m_buttonBehaviouralParameters d))
   \<and> m_outlineColor (fst (paint env b))
       = outlineSelect env d b False
           (outlinePaletteCorrected env d (btype b)
              (outlineOrBackgroundFlags (m_buttonBehaviouralParameters d)))
   \<and> (validityPreserving env \<longrightarrow> isValid (m_backgroundColor (fst (paint env b)))
        \<longrightarrow> isValid (m_outlineColor (fst (paint env b))))"
proof -
  let ?p = "m_buttonBehaviouralParameters d"
  have low: "m_lowContrastBetweenTitleBarAndBackground (fst (paint env b))"
    using nt cr by (simp add: paint_colors(3) [OF d])
  have fl: "outlineFlags d (m_lowContrastBetweenTitleBarAndBackground (fst (paint env b)))
              = outlineOrBackgroundFlags ?p"
    using low by (simp add: outlineFlags_low)
  have sel: "outlineSelect env d (b\<lparr>m_lowContrastBetweenTitleBarAndBackground := True\<rparr>) False
               (outlinePaletteCorrected env d (btype b) (outlineOrBackgroundFlags ?p))
             = outlineSelect env d b False
               (outlinePaletteCorrected env d (btype b) (outlineOrBackgroundFlags ?p))"
    by (rule outlineSelect_cong) simp_all
  have oc: "m_outlineColor (fst (paint env b))
       = outlineSelect env d b False
           (outlinePaletteCorrected env d (btype b) (outlineOrBackgroundFlags ?p))"
    using low d sel by (simp add: paint_colors(4) [OF d] outlineColor_def outlineFlags_low)
  have gl: "validityPreserving env \<longrightarrow> isValid (m_backgroundColor (fst (paint env b)))
        \<longrightarrow> isValid (m_outlineColor (fst (paint env b)))"
  proof (intro impI)
    assume v: "validityPreserving env"
      and bv: "isValid (m_backgroundColor (fst (paint env b)))"
    have a: "backgroundColors (internalSettings d) = ColorsAccent
            \<or> backgroundColors (internalSettings d) = ColorsAccentWithTrafficLights"
      using nt by (rule isAccent_cases)
    obtain bn bh bf where bp: "backgroundPalette env d (btype b) = (bn, bh, bf)"
      by (cases "backgroundPalette env d (btype b)") auto
    obtain ol_n ol_h ol_f
      where op: "outlinePalette env d (btype b) (outlineOrBackgroundFlags ?p)
                   = (ol_n, ol_h, ol_f)"
      by (cases "outlinePalette env d (btype b) (outlineOrBackgroundFlags ?p)") auto
    have t: "(isValid bn \<longrightarrow> isValid ol_n) \<and> (isValid bh \<longrightarrow> isValid ol_h)
         \<and> (isValid bf \<longrightarrow> isValid ol_f)"
      by (rule accent_palette_valid [OF v a bp op])
    have c: "outlinePaletteCorrected env d (btype b) (outlineOrBackgroundFlags ?p)
               = (outlineContrastCorrect env d ol_n, outlineContrastCorrect env d ol_h,
                  outlineContrastCorrect env d ol_f)"
      by (simp add: outlinePaletteCorrected_def op)
    have bs: "isValid (fst (backgroundSelect env d b False (bn, bh, bf)))"
      using bv d bp by (simp add: paint_colors(1) [OF d] backgroundColor_def)
    have "isValid (outlineSelect env d b False
            (outlineContrastCorrect env d ol_n, outlineContrastCorrect env d ol_h,
             outlineContrastCorrect env d ol_f))"
      using t by (intro select_valid [OF v _ _ _ bs a])
                 (simp_all add: outlineContrastCorrect_valid [OF v])
    then show "isValid (m_outlineColor (fst (paint env b)))"
      by (simp add: oc c)
  qed
  from low fl oc gl show ?thesis
    by (simp add: outlineOrBackgroundFlags_def)
qed

theorem low_contrast_outline_flags_witness:
  "contrastRatio exampleEnv
     (m_backgroundColor (fst (paint exampleEnv
        (exampleButton\<lparr>decoration :=
           Some (exampleDecoration\<lparr>titleBarColor := Rgba 0.2 0.5 0.9 1\<rparr>)\<rparr>))))
     (Rgba 0.2 0.5 0.9 1) < 1.3
   \<and> m_backgroundColor (fst (paint exampleEnv
        (exampleButton\<lparr>decoration :=
           Some (exampleDecoration\<lparr>titleBarColor := Rgba 0.2 0.5 0.9 1\<rparr>)\<rparr>)))
       = Rgba 0.2 0.5 0.9 0.3
   \<and> m_lowContrastBetweenTitleBarAndBackground (fst (paint exampleEnv
        (exampleButton\<lparr>decoration :=
           Some (exampleDecoration\<lparr>titleBarColor := Rgba 0.2 0.5 0.9 1\<rparr>)\<rparr>)))
   \<and> isValid (m_outlineColor (fst (paint exampleEnv
        (exampleButton\<lparr>decoration :=
           Some (exampleDecoration\<lparr>titleBarColor := Rgba 0.2 0.5 0.9 1\<rparr>)\<rparr>))))"
proof -
  let ?d = "exampleDecoration\<lparr>titleBarColor := Rgba 0.2 0.5 0.9 1\<rparr>"
  let ?b = "exampleButton\<lparr>decoration := Some ?d\<rparr>"
  have d: "decoration ?b = Some ?d" by simp
  have nt: "backgroundColors (internalSettings ?d) \<noteq> ColorsTitlebarText"
    by (simp add: exampleDecoration_def exampleSettings_def)
  have "fst (backgroundColor exampleEnv ?b InvalidColor False) = Rgba 0.2 0.5 0.9 0.3"
    by (simp add: exampleButton_def exampleDecoration_def
        exampleSettings_def exampleParameters_def exampleEnv_def exampleColors_def
        exampleAnimation_def backgroundColor_def backgroundSelect_def backgroundPalette_def
        colorIf_def analyseContrastWithForeground_def Let_def)
  then have bg: "m_backgroundColor (fst (paint exampleEnv ?b)) = Rgba 0.2 0.5 0.9 0.3"
    using paint_colors(1) [OF d, of exampleEnv] by simp
  have cr: "contrastRatio exampleEnv (m_backgroundColor (fst (paint exampleEnv ?b)))
              (titleBarColor ?d) < 1.3"
    unfolding bg by (simp add: exampleEnv_def exampleContrastRatio_def exampleLuma_def)
  note t = low_contrast_outline_flags [OF d nt cr]
  have l: "m_lowContrastBetweenTitleBarAndBackground (fst (paint exampleEnv ?b))"
    using t by (rule conjunct1)
  have "isValid (m_backgroundColor (fst (paint exampleEnv ?b)))"
    unfolding bg by simp
  with t exampleEnv_validityPreserving
  have v: "isValid (m_outlineColor (fst (paint exampleEnv ?b)))"
    by (elim conjE) simp
  have c: "contrastRatio exampleEnv (m_backgroundColor (fst (paint exampleEnv ?b)))
             (Rgba 0.2 0.5 0.9 1) < 1.3"
    using cr by simp
  from c bg l v show ?thesis by (intro conjI)
qed


end
